theory Spec2Isabelle
  imports Main
begin

section \<open>Python values, exceptions and JSON serialisation\<close>

text \<open>
  The values that flow through \<^verbatim>\<open>setup.py\<close> are configuration strings, the
  dictionaries it builds (policy documents, notification configurations) and the
  dictionaries the provider's client returns. They are modelled as JSON-like values: a
  dictionary is an association list in insertion order with string keys. Characters are
  code points below 256.
\<close>

datatype json =
    JNull
  | JBool bool
  | JInt int
  | JStr string
  | JArr "json list"
  | JObj "(string \<times> json) list"

text \<open>
  The exceptions of the run, all subclasses of Python's \<^verbatim>\<open>Exception\<close>: an error
  raised by the client of a provider (with its error code), a missing dictionary key, and
  a type error (subscripting or unpacking a value that does not support it).
\<close>

datatype exn =
    ProviderError string
  | KeyError string
  | TypeError

type_synonym 'a result = "exn + 'a"

text \<open>Subscripting \<^verbatim>\<open>v[k]\<close> with a string key.\<close>

fun py_getitem :: "json \<Rightarrow> string \<Rightarrow> json result" where
  "py_getitem (JObj kvs) k =
     (case map_of kvs k of None \<Rightarrow> Inl (KeyError k) | Some v \<Rightarrow> Inr v)"
| "py_getitem _ k = Inl TypeError"

text \<open>
  \<^verbatim>\<open>json.dumps\<close> with its default arguments: separators \<^verbatim>\<open>", "\<close> and
  \<^verbatim>\<open>": "\<close>, keys in insertion order, every character outside the printable ASCII
  range escaped.
\<close>

definition hex_digit :: "nat \<Rightarrow> char" where
  "hex_digit n = (''0123456789abcdef'') ! (n mod 16)"

definition escape_char :: "char \<Rightarrow> string" where
  "escape_char c =
     (if c = CHR 0x22 then [CHR 0x5C, CHR 0x22]
      else if c = CHR 0x5C then [CHR 0x5C, CHR 0x5C]
      else if c = CHR 0x0A then [CHR 0x5C, CHR ''n'']
      else if c = CHR 0x0D then [CHR 0x5C, CHR ''r'']
      else if c = CHR 0x09 then [CHR 0x5C, CHR ''t'']
      else if c = CHR 0x08 then [CHR 0x5C, CHR ''b'']
      else if c = CHR 0x0C then [CHR 0x5C, CHR ''f'']
      else if (of_char c :: nat) < 32 \<or> 126 < (of_char c :: nat)
        then [CHR 0x5C, CHR ''u'', CHR ''0'', CHR ''0'',
              hex_digit ((of_char c :: nat) div 16), hex_digit (of_char c :: nat)]
      else [c])"

definition quote :: "string \<Rightarrow> string" where
  "quote s = [CHR 0x22] @ concat (map escape_char s) @ [CHR 0x22]"

text \<open>Decimal digits are the first ten of \<open>hex_digit\<close>.\<close>

function dec_nat :: "nat \<Rightarrow> string" where
  "dec_nat n = (if n < 10 then [hex_digit n] else dec_nat (n div 10) @ [hex_digit (n mod 10)])"
  by pat_completeness auto
termination
  by (relation "measure id") auto

definition dec_int :: "int \<Rightarrow> string" where
  "dec_int i = (if i < 0 then ''-'' @ dec_nat (nat (- i)) else dec_nat (nat i))"

fun join :: "string \<Rightarrow> string list \<Rightarrow> string" where
  "join sep [] = []"
| "join sep [x] = x"
| "join sep (x # y # ys) = x @ sep @ join sep (y # ys)"

fun json_dumps :: "json \<Rightarrow> string" where
  "json_dumps JNull = ''null''"
| "json_dumps (JBool b) = (if b then ''true'' else ''false'')"
| "json_dumps (JInt i) = dec_int i"
| "json_dumps (JStr s) = quote s"
| "json_dumps (JArr xs) = ''['' @ join '', '' (map json_dumps xs) @ '']''"
| "json_dumps (JObj kvs) =
     ''{'' @ join '', '' (map (\<lambda>kv. quote (fst kv) @ '': '' @ json_dumps (snd kv)) kvs) @ ''}''"

section \<open>Configuration, provider calls and console output\<close>

text \<open>The module constants of \<^verbatim>\<open>setup.py\<close>, as one record.\<close>

record config =
  AWS_REGION :: string
  BUCKET_NAME :: string
  QUEUE_NAME :: string
  IAM_USER_NAME :: string
  IAM_POLICY_NAME :: string

definition default_config :: config where
  "default_config =
     \<lparr>AWS_REGION = ''us-east-1'',
      BUCKET_NAME = ''audio-transcriber-ingress-bucket'',
      QUEUE_NAME = ''audio-transcriber-ingress-queue'',
      IAM_USER_NAME = ''audio-transcriber-ingress-user'',
      IAM_POLICY_NAME = ''AudioTranscriberIngressPolicy''\<rparr>"

text \<open>
  One constructor per client method the script calls, with the keyword arguments in the
  order the source writes them:
  \<^item> \<open>S3CreateBucket Bucket CreateBucketConfiguration\<close> (the second absent or present),
  \<^item> \<open>SqsCreateQueue QueueName Attributes\<close>,
  \<^item> \<open>SqsGetQueueAttributes QueueUrl AttributeNames\<close>,
  \<^item> \<open>SqsSetQueueAttributes QueueUrl Attributes\<close>,
  \<^item> \<open>S3PutBucketNotificationConfiguration Bucket NotificationConfiguration\<close>,
  \<^item> \<open>IamCreateUser UserName\<close>,
  \<^item> \<open>IamCreatePolicy PolicyName PolicyDocument\<close>,
  \<^item> \<open>IamAttachUserPolicy UserName PolicyArn\<close>,
  \<^item> \<open>IamCreateAccessKey UserName\<close>.
\<close>

datatype call =
    S3CreateBucket string "json option"
  | SqsCreateQueue string "(string \<times> string) list"
  | SqsGetQueueAttributes json "string list"
  | SqsSetQueueAttributes json "(string \<times> string) list"
  | S3PutBucketNotificationConfiguration string json
  | IamCreateUser string
  | IamCreatePolicy string string
  | IamAttachUserPolicy string json
  | IamCreateAccessKey string

text \<open>One constructor per \<^verbatim>\<open>print\<close> statement, carrying the values it interpolates.\<close>

datatype msg =
    Creating_bucket string
  | Bucket_created
  | Error_creating_bucket exn
  | Creating_queue string
  | Queue_created json
  | Error_creating_queue exn
  | Setting_policy
  | Policy_set
  | Configuring_notifications
  | Notifications_configured
  | Creating_user string
  | Creating_policy string
  | Attaching_policy
  | Creating_access_key
  | User_and_policy_created
  | Access_key_id json
  | Secret_access_key json
  | Error_creating_user exn
  | Setup_complete

text \<open>
  The state of a run: the state of the provider (of any type \<open>'w\<close>), the calls issued so
  far and the lines printed so far. A provider answers a call in a state with an exception
  or a response, and a new state.
\<close>

record 'w run =
  world :: 'w
  calls :: "call list"
  printed :: "msg list"

type_synonym 'w provider = "call \<Rightarrow> 'w \<Rightarrow> json result \<times> 'w"

definition invoke :: "'w provider \<Rightarrow> call \<Rightarrow> 'w run \<Rightarrow> json result \<times> 'w run" where
  "invoke prov c s =
     (case prov c (world s) of (r, w) \<Rightarrow> (r, s\<lparr>world := w, calls := calls s @ [c]\<rparr>))"

definition py_print :: "msg \<Rightarrow> 'w run \<Rightarrow> 'w run" where
  "py_print m s = s\<lparr>printed := printed s @ [m]\<rparr>"

text \<open>Sequencing: an exception skips the rest of the block.\<close>

definition and_then ::
  "'a result \<times> 's \<Rightarrow> ('a \<Rightarrow> 's \<Rightarrow> 'b result \<times> 's) \<Rightarrow> 'b result \<times> 's" where
  "and_then m f = (case m of (Inl e, s) \<Rightarrow> (Inl e, s) | (Inr v, s) \<Rightarrow> f v s)"

section \<open>The five steps and the top-level sequence\<close>

subsection \<open>Storage Provisioner\<close>

definition create_s3_bucket_try :: "config \<Rightarrow> 'w provider \<Rightarrow> 'w run \<Rightarrow> unit result \<times> 'w run" where
  "create_s3_bucket_try cfg prov s0 =
     (let s1 = py_print (Creating_bucket (BUCKET_NAME cfg)) s0 in
      and_then
        (if AWS_REGION cfg = ''us-east-1''
         then invoke prov (S3CreateBucket (BUCKET_NAME cfg) None) s1
         else invoke prov
                (S3CreateBucket (BUCKET_NAME cfg)
                   (Some (JObj [(''LocationConstraint'', JStr (AWS_REGION cfg))]))) s1)
        (\<lambda>_ s2. (Inr (), py_print Bucket_created s2)))"

definition create_s3_bucket :: "config \<Rightarrow> 'w provider \<Rightarrow> 'w run \<Rightarrow> unit result \<times> 'w run" where
  "create_s3_bucket cfg prov s0 =
     (case create_s3_bucket_try cfg prov s0 of
        (Inl e, s) \<Rightarrow> (Inr (), py_print (Error_creating_bucket e) s)
      | (Inr _, s) \<Rightarrow> (Inr (), s))"

subsection \<open>Queue Provisioner\<close>

definition creation_attributes :: "(string \<times> string) list" where
  "creation_attributes =
     [(''VisibilityTimeout'', ''300''), (''MessageRetentionPeriod'', ''1209600'')]"

definition create_sqs_queue_try ::
  "config \<Rightarrow> 'w provider \<Rightarrow> 'w run \<Rightarrow> (json \<times> json) result \<times> 'w run" where
  "create_sqs_queue_try cfg prov s0 =
     (let s1 = py_print (Creating_queue (QUEUE_NAME cfg)) s0 in
      and_then (invoke prov (SqsCreateQueue (QUEUE_NAME cfg) creation_attributes) s1)
        (\<lambda>response s2.
      and_then (py_getitem response ''QueueUrl'', s2)
        (\<lambda>queue_url s2.
      and_then (invoke prov (SqsGetQueueAttributes queue_url [''QueueArn'']) s2)
        (\<lambda>queue_attributes s3.
      and_then (py_getitem queue_attributes ''Attributes'', s3)
        (\<lambda>attributes s3.
      and_then (py_getitem attributes ''QueueArn'', s3)
        (\<lambda>queue_arn s3.
      (Inr (queue_url, queue_arn), py_print (Queue_created queue_arn) s3)))))))"

text \<open>
  The handler prints and falls off the end of the function: the caller receives
  \<^verbatim>\<open>None\<close> instead of a pair.
\<close>

definition create_sqs_queue ::
  "config \<Rightarrow> 'w provider \<Rightarrow> 'w run \<Rightarrow> (json \<times> json) option result \<times> 'w run" where
  "create_sqs_queue cfg prov s0 =
     (case create_sqs_queue_try cfg prov s0 of
        (Inl e, s) \<Rightarrow> (Inr None, py_print (Error_creating_queue e) s)
      | (Inr p, s) \<Rightarrow> (Inr (Some p), s))"

text \<open>Unpacking \<^verbatim>\<open>a, b = v\<close> where \<open>v\<close> is a pair or \<^verbatim>\<open>None\<close>.\<close>

definition unpack_pair :: "('a \<times> 'b) option \<Rightarrow> ('a \<times> 'b) result" where
  "unpack_pair v = (case v of None \<Rightarrow> Inl TypeError | Some p \<Rightarrow> Inr p)"

subsection \<open>Access Binder\<close>

definition sqs_policy :: "config \<Rightarrow> json \<Rightarrow> json" where
  "sqs_policy cfg queue_arn =
     JObj [(''Version'', JStr ''2012-10-17''),
           (''Statement'', JArr [
              JObj [(''Effect'', JStr ''Allow''),
                    (''Principal'', JObj [(''Service'', JStr ''s3.amazonaws.com'')]),
                    (''Action'', JStr ''sqs:SendMessage''),
                    (''Resource'', queue_arn),
                    (''Condition'',
                       JObj [(''ArnLike'',
                          JObj [(''aws:SourceArn'',
                                 JStr (''arn:aws:s3:::'' @ BUCKET_NAME cfg))])])]])]"

definition attach_sqs_policy ::
  "config \<Rightarrow> 'w provider \<Rightarrow> json \<Rightarrow> 'w run \<Rightarrow> unit result \<times> 'w run" where
  "attach_sqs_policy cfg prov queue_arn s0 =
     (let s1 = py_print Setting_policy s0 in
      and_then (create_sqs_queue cfg prov s1)
        (\<lambda>created s2.
      and_then (unpack_pair created, s2)
        (\<lambda>(queue_url, _) s2.
      and_then
        (invoke prov
           (SqsSetQueueAttributes queue_url
              [(''Policy'', json_dumps (sqs_policy cfg queue_arn))]) s2)
        (\<lambda>_ s3. (Inr (), py_print Policy_set s3)))))"

subsection \<open>Event Wiring\<close>

definition s3_notification_config :: "json \<Rightarrow> json" where
  "s3_notification_config queue_arn =
     JObj [(''QueueConfigurations'', JArr [
              JObj [(''QueueArn'', queue_arn),
                    (''Events'', JArr [JStr ''s3:ObjectCreated:*''])]])]"

definition configure_s3_notifications ::
  "config \<Rightarrow> 'w provider \<Rightarrow> json \<Rightarrow> 'w run \<Rightarrow> unit result \<times> 'w run" where
  "configure_s3_notifications cfg prov queue_arn s0 =
     (let s1 = py_print Configuring_notifications s0 in
      and_then
        (invoke prov
           (S3PutBucketNotificationConfiguration (BUCKET_NAME cfg)
              (s3_notification_config queue_arn)) s1)
        (\<lambda>_ s2. (Inr (), py_print Notifications_configured s2)))"

subsection \<open>Identity Provisioner\<close>

definition policy_document :: "config \<Rightarrow> json" where
  "policy_document cfg =
     JObj [(''Version'', JStr ''2012-10-17''),
           (''Statement'', JArr [
              JObj [(''Effect'', JStr ''Allow''),
                    (''Action'', JArr [JStr ''s3:PutObject'', JStr ''s3:GetObject'']),
                    (''Resource'', JArr [JStr (''arn:aws:s3:::'' @ BUCKET_NAME cfg @ ''/*'')])],
              JObj [(''Effect'', JStr ''Allow''),
                    (''Action'', JArr [JStr ''sqs:ReceiveMessage'', JStr ''sqs:DeleteMessage'',
                                      JStr ''sqs:GetQueueAttributes'']),
                    (''Resource'',
                       JStr (''arn:aws:sqs:'' @ AWS_REGION cfg @ '':*: '' @ QUEUE_NAME cfg))]])]"

text \<open>The parameter \<open>queue_arn\<close> is not used by the body, as in the source.\<close>

definition create_iam_user_try ::
  "config \<Rightarrow> 'w provider \<Rightarrow> json \<Rightarrow> 'w run \<Rightarrow> unit result \<times> 'w run" where
  "create_iam_user_try cfg prov queue_arn s0 =
     (let s1 = py_print (Creating_user (IAM_USER_NAME cfg)) s0 in
      and_then (invoke prov (IamCreateUser (IAM_USER_NAME cfg)) s1)
        (\<lambda>_ s2.
      let s3 = py_print (Creating_policy (IAM_POLICY_NAME cfg)) s2 in
      and_then
        (invoke prov
           (IamCreatePolicy (IAM_POLICY_NAME cfg) (json_dumps (policy_document cfg))) s3)
        (\<lambda>policy_response s4.
      and_then (py_getitem policy_response ''Policy'', s4)
        (\<lambda>policy s4.
      and_then (py_getitem policy ''Arn'', s4)
        (\<lambda>policy_arn s4.
      let s5 = py_print Attaching_policy s4 in
      and_then (invoke prov (IamAttachUserPolicy (IAM_USER_NAME cfg) policy_arn) s5)
        (\<lambda>_ s6.
      let s7 = py_print Creating_access_key s6 in
      and_then (invoke prov (IamCreateAccessKey (IAM_USER_NAME cfg)) s7)
        (\<lambda>access_key s8.
      let s9 = py_print User_and_policy_created s8 in
      and_then (py_getitem access_key ''AccessKey'', s9)
        (\<lambda>key s9.
      and_then (py_getitem key ''AccessKeyId'', s9)
        (\<lambda>key_id s9.
      let s10 = py_print (Access_key_id key_id) s9 in
      and_then (py_getitem access_key ''AccessKey'', s10)
        (\<lambda>key s10.
      and_then (py_getitem key ''SecretAccessKey'', s10)
        (\<lambda>secret s10.
      (Inr (), py_print (Secret_access_key secret) s10))))))))))))"

definition create_iam_user ::
  "config \<Rightarrow> 'w provider \<Rightarrow> json \<Rightarrow> 'w run \<Rightarrow> unit result \<times> 'w run" where
  "create_iam_user cfg prov queue_arn s0 =
     (case create_iam_user_try cfg prov queue_arn s0 of
        (Inl e, s) \<Rightarrow> (Inr (), py_print (Error_creating_user e) s)
      | (Inr _, s) \<Rightarrow> (Inr (), s))"

subsection \<open>Top-level sequence\<close>

definition main :: "config \<Rightarrow> 'w provider \<Rightarrow> 'w run \<Rightarrow> unit result \<times> 'w run" where
  "main cfg prov s0 =
     and_then (create_s3_bucket cfg prov s0)
       (\<lambda>_ s1.
     and_then (create_sqs_queue cfg prov s1)
       (\<lambda>created s2.
     and_then (unpack_pair created, s2)
       (\<lambda>(queue_url, queue_arn) s2.
     and_then (attach_sqs_policy cfg prov queue_arn s2)
       (\<lambda>_ s3.
     and_then (configure_s3_notifications cfg prov queue_arn s3)
       (\<lambda>_ s4.
     and_then (create_iam_user cfg prov queue_arn s4)
       (\<lambda>_ s5.
     (Inr (), py_print Setup_complete s5)))))))"

subsection \<open>The pipeline with the queue address passed through\<close>

text \<open>
  The refactoring the specification describes: the Access Binder receives the address that
  the Queue Provisioner returned, instead of asking for the queue again. Everything else is
  as in \<open>attach_sqs_policy\<close> and \<open>main\<close>.
\<close>

definition attach_sqs_policy_threaded ::
  "config \<Rightarrow> 'w provider \<Rightarrow> json \<Rightarrow> json \<Rightarrow> 'w run \<Rightarrow> unit result \<times> 'w run" where
  "attach_sqs_policy_threaded cfg prov queue_url queue_arn s0 =
     (let s1 = py_print Setting_policy s0 in
      and_then
        (invoke prov
           (SqsSetQueueAttributes queue_url
              [(''Policy'', json_dumps (sqs_policy cfg queue_arn))]) s1)
        (\<lambda>_ s2. (Inr (), py_print Policy_set s2)))"

definition main_threaded :: "config \<Rightarrow> 'w provider \<Rightarrow> 'w run \<Rightarrow> unit result \<times> 'w run" where
  "main_threaded cfg prov s0 =
     and_then (create_s3_bucket cfg prov s0)
       (\<lambda>_ s1.
     and_then (create_sqs_queue cfg prov s1)
       (\<lambda>created s2.
     and_then (unpack_pair created, s2)
       (\<lambda>(queue_url, queue_arn) s2.
     and_then (attach_sqs_policy_threaded cfg prov queue_url queue_arn s2)
       (\<lambda>_ s3.
     and_then (configure_s3_notifications cfg prov queue_arn s3)
       (\<lambda>_ s4.
     and_then (create_iam_user cfg prov queue_arn s4)
       (\<lambda>_ s5.
     (Inr (), py_print Setup_complete s5)))))))"

section \<open>Reading a trace and a document\<close>

definition start :: "'w \<Rightarrow> 'w run" where
  "start w = \<lparr>world = w, calls = [], printed = []\<rparr>"

text \<open>The queue-creation requests of a trace: name and attributes, in order.\<close>

fun create_queue_requests :: "call list \<Rightarrow> (string \<times> (string \<times> string) list) list" where
  "create_queue_requests [] = []"
| "create_queue_requests (SqsCreateQueue n a # cs) = (n, a) # create_queue_requests cs"
| "create_queue_requests (_ # cs) = create_queue_requests cs"

text \<open>The attribute updates of a trace: queue address and attributes, in order.\<close>

fun set_attributes_requests :: "call list \<Rightarrow> (json \<times> (string \<times> string) list) list" where
  "set_attributes_requests [] = []"
| "set_attributes_requests (SqsSetQueueAttributes u a # cs) = (u, a) # set_attributes_requests cs"
| "set_attributes_requests (_ # cs) = set_attributes_requests cs"

text \<open>
  The statements of a policy document, and the resources and actions they name (a single
  value or a list of values, as the policy format allows).
\<close>

definition statements :: "json \<Rightarrow> json list" where
  "statements doc = (case py_getitem doc ''Statement'' of Inr (JArr ss) \<Rightarrow> ss | _ \<Rightarrow> [])"

definition field_values :: "string \<Rightarrow> json \<Rightarrow> json list" where
  "field_values k stmt =
     (case py_getitem stmt k of Inr (JArr vs) \<Rightarrow> vs | Inr v \<Rightarrow> [v] | Inl _ \<Rightarrow> [])"

definition resources :: "json \<Rightarrow> json list" where
  "resources doc = concat (map (field_values ''Resource'') (statements doc))"

definition actions :: "json \<Rightarrow> json list" where
  "actions doc = concat (map (field_values ''Action'') (statements doc))"

text \<open>The destinations of the queue mappings of a notification configuration.\<close>

definition destination :: "json \<Rightarrow> json list" where
  "destination mapping = (case py_getitem mapping ''QueueArn'' of Inr v \<Rightarrow> [v] | Inl _ \<Rightarrow> [])"

definition queue_destinations :: "json \<Rightarrow> json list" where
  "queue_destinations conf =
     (case py_getitem conf ''QueueConfigurations'' of
        Inr (JArr ms) \<Rightarrow> concat (map destination ms)
      | _ \<Rightarrow> [])"

text \<open>
  The calls of the three steps that follow the Queue Provisioner: setting queue attributes,
  installing a notification configuration, and every identity call.
\<close>

fun downstream :: "call \<Rightarrow> bool" where
  "downstream (S3CreateBucket b l) = False"
| "downstream (SqsCreateQueue n a) = False"
| "downstream (SqsGetQueueAttributes u ns) = False"
| "downstream _ = True"

text \<open>
  Two states of a run agree when the provider is in the same state and the same attribute
  updates have been requested; the rest of the trace and the printed lines may differ.
\<close>

definition agree :: "'w run \<Rightarrow> 'w run \<Rightarrow> bool" where
  "agree s t \<longleftrightarrow>
     world s = world t \<and>
     set_attributes_requests (calls s) = set_attributes_requests (calls t)"

text \<open>Two outcomes are alike when the results are equal and the states agree.\<close>

definition alike :: "'a result \<times> 'w run \<Rightarrow> 'a result \<times> 'w run \<Rightarrow> bool" where
  "alike m m' \<longleftrightarrow> fst m = fst m' \<and> agree (snd m) (snd m')"

section \<open>Providers\<close>

text \<open>
  Two properties a provider may have. Queue creation is idempotent when creating again,
  in the state a successful creation left, gives the same response and changes nothing.
  The attribute lookup is read-only when it never changes the provider's state.
\<close>

definition queue_creation_idempotent :: "'w provider \<Rightarrow> bool" where
  "queue_creation_idempotent prov \<longleftrightarrow>
     (\<forall>n a w r w'. prov (SqsCreateQueue n a) w = (Inr r, w') \<longrightarrow>
        prov (SqsCreateQueue n a) w' = (Inr r, w'))"

definition lookup_read_only :: "'w provider \<Rightarrow> bool" where
  "lookup_read_only prov \<longleftrightarrow> (\<forall>u ns w. snd (prov (SqsGetQueueAttributes u ns) w) = w)"

text \<open>
  Concrete providers, for running the script on examples. \<open>responses\<close> answers each call
  with a dictionary of the shape the script reads.
\<close>

definition responses :: "call \<Rightarrow> json" where
  "responses c =
     (case c of
        SqsCreateQueue n a \<Rightarrow> JObj [(''QueueUrl'', JStr (''https://sqs.example/'' @ n))]
      | SqsGetQueueAttributes u ns \<Rightarrow>
          JObj [(''Attributes'',
                 JObj [(''QueueArn'',
                        JStr ''arn:aws:sqs:us-east-1:123456789012:audio-transcriber-ingress-queue'')])]
      | IamCreatePolicy n d \<Rightarrow>
          JObj [(''Policy'', JObj [(''Arn'', JStr (''arn:aws:iam::123456789012:policy/'' @ n))])]
      | IamCreateAccessKey u \<Rightarrow>
          JObj [(''AccessKey'',
                 JObj [(''AccessKeyId'', JStr ''AKIAEXAMPLE''),
                       (''SecretAccessKey'', JStr ''example-secret'')])]
      | _ \<Rightarrow> JObj [])"

text \<open>A provider that accepts every call and has no state of its own.\<close>

definition accepting :: "unit provider" where
  "accepting c w = (Inr (responses c), w)"

text \<open>A provider that rejects the calls in \<open>bad\<close> with the given error code.\<close>

definition rejecting :: "(call \<Rightarrow> bool) \<Rightarrow> string \<Rightarrow> unit provider" where
  "rejecting bad code c w = (if bad c then (Inl (ProviderError code), w) else (Inr (responses c), w))"

fun is_create_bucket :: "call \<Rightarrow> bool" where
  "is_create_bucket (S3CreateBucket b l) = True"
| "is_create_bucket _ = False"

fun is_get_queue_attributes :: "call \<Rightarrow> bool" where
  "is_get_queue_attributes (SqsGetQueueAttributes u ns) = True"
| "is_get_queue_attributes _ = False"

fun is_set_queue_attributes :: "call \<Rightarrow> bool" where
  "is_set_queue_attributes (SqsSetQueueAttributes u a) = True"
| "is_set_queue_attributes _ = False"

fun is_create_user :: "call \<Rightarrow> bool" where
  "is_create_user (IamCreateUser u) = True"
| "is_create_user _ = False"

text \<open>
  A provider whose state counts the attribute lookups and which answers only the first
  one; queue creation always returns the same address and changes nothing.
\<close>

definition one_lookup :: "nat provider" where
  "one_lookup c w =
     (case c of
        SqsGetQueueAttributes u ns \<Rightarrow>
          (if w = 0 then Inr (responses c) else Inl (ProviderError ''Throttling''), Suc w)
      | _ \<Rightarrow> (Inr (responses c), w))"

text \<open>
  A provider whose state is the list of user names taken; creating a user under a taken
  name is rejected.
\<close>

definition named_users :: "string list provider" where
  "named_users c w =
     (case c of
        IamCreateUser u \<Rightarrow>
          (if u \<in> set w then (Inl (ProviderError ''EntityAlreadyExists''), w)
           else (Inr (responses c), u # w))
      | _ \<Rightarrow> (Inr (responses c), w))"

text \<open>
  What a provider keeps can be read off its state. Given a reading of a queue's attributes
  (state, queue address, attribute name) and of a bucket's notification configuration
  (state, bucket name), three more properties a provider may have: an accepted queue
  creation leaves every requested attribute with the requested value; an accepted
  attribute update leaves every attribute of the request with the value of the request;
  an accepted notification put leaves the bucket with exactly the configuration of the
  request.
\<close>

definition records_creation ::
  "'w provider \<Rightarrow> ('w \<Rightarrow> json \<Rightarrow> string \<Rightarrow> string option) \<Rightarrow> bool" where
  "records_creation prov attr \<longleftrightarrow>
     (\<forall>n a w r w' u k v.
        prov (SqsCreateQueue n a) w = (Inr r, w') \<longrightarrow> py_getitem r ''QueueUrl'' = Inr u \<longrightarrow>
        map_of a k = Some v \<longrightarrow> attr w' u k = Some v)"

definition records_update ::
  "'w provider \<Rightarrow> ('w \<Rightarrow> json \<Rightarrow> string \<Rightarrow> string option) \<Rightarrow> bool" where
  "records_update prov attr \<longleftrightarrow>
     (\<forall>u a w r w' k v.
        prov (SqsSetQueueAttributes u a) w = (Inr r, w') \<longrightarrow>
        map_of a k = Some v \<longrightarrow> attr w' u k = Some v)"

definition put_replaces ::
  "'w provider \<Rightarrow> ('w \<Rightarrow> string \<Rightarrow> json option) \<Rightarrow> bool" where
  "put_replaces prov conf \<longleftrightarrow>
     (\<forall>b c w r w'.
        prov (S3PutBucketNotificationConfiguration b c) w = (Inr r, w') \<longrightarrow>
        conf w' b = Some c)"

text \<open>
  A provider that keeps queues and notification configurations. Its state holds the
  attributes of each queue by name and the configuration of each bucket by name. Creating
  a queue under a new name stores the attributes; under a name that exists it succeeds
  when the queue has the requested attributes and is rejected otherwise. Looking up and
  updating attributes need an address of a queue that exists; an update puts the new
  values in front of the old ones. A notification put stores the configuration in front
  of any earlier one for the bucket. Every other call is accepted.
\<close>

record cloud =
  queues :: "(string \<times> (string \<times> string) list) list"
  notifications :: "(string \<times> json) list"

definition queue_named :: "json \<Rightarrow> string option" where
  "queue_named u =
     (case u of
        JStr s \<Rightarrow> if take 20 s = ''https://sqs.example/'' then Some (drop 20 s) else None
      | _ \<Rightarrow> None)"

definition queue_attribute :: "cloud \<Rightarrow> json \<Rightarrow> string \<Rightarrow> string option" where
  "queue_attribute w u k =
     (case queue_named u of
        None \<Rightarrow> None
      | Some n \<Rightarrow> (case map_of (queues w) n of None \<Rightarrow> None | Some a \<Rightarrow> map_of a k))"

definition bucket_notification :: "cloud \<Rightarrow> string \<Rightarrow> json option" where
  "bucket_notification w b = map_of (notifications w) b"

definition cloud_provider :: "cloud provider" where
  "cloud_provider c w =
     (case c of
        SqsCreateQueue n a \<Rightarrow>
          (case map_of (queues w) n of
             None \<Rightarrow> (Inr (responses c), w\<lparr>queues := (n, a) # queues w\<rparr>)
           | Some a' \<Rightarrow>
               if list_all (\<lambda>(k, v). map_of a' k = Some v) a then (Inr (responses c), w)
               else (Inl (ProviderError ''QueueNameExists''), w))
      | SqsGetQueueAttributes u ks \<Rightarrow>
          (case queue_named u of
             None \<Rightarrow> (Inl (ProviderError ''NonExistentQueue''), w)
           | Some n \<Rightarrow>
               (case map_of (queues w) n of
                  None \<Rightarrow> (Inl (ProviderError ''NonExistentQueue''), w)
                | Some a \<Rightarrow> (Inr (responses c), w)))
      | SqsSetQueueAttributes u a \<Rightarrow>
          (case queue_named u of
             None \<Rightarrow> (Inl (ProviderError ''NonExistentQueue''), w)
           | Some n \<Rightarrow>
               (case map_of (queues w) n of
                  None \<Rightarrow> (Inl (ProviderError ''NonExistentQueue''), w)
                | Some a' \<Rightarrow> (Inr (JObj []), w\<lparr>queues := (n, a @ a') # queues w\<rparr>)))
      | S3PutBucketNotificationConfiguration b conf \<Rightarrow>
          (Inr (JObj []), w\<lparr>notifications := (b, conf) # notifications w\<rparr>)
      | _ \<Rightarrow> (Inr (responses c), w))"

definition empty_cloud :: cloud where
  "empty_cloud = \<lparr>queues = [], notifications = []\<rparr>"

text \<open>A state in which the queue of the source exists and carries an earlier policy.\<close>

definition cloud_with_grant :: cloud where
  "cloud_with_grant =
     \<lparr>queues =
        [(''audio-transcriber-ingress-queue'',
          [(''Policy'', ''earlier-policy''), (''VisibilityTimeout'', ''300''),
           (''MessageRetentionPeriod'', ''1209600'')])],
      notifications = []\<rparr>"

fun is_put_notification :: "call \<Rightarrow> bool" where
  "is_put_notification (S3PutBucketNotificationConfiguration b c) = True"
| "is_put_notification _ = False"

section \<open>Basic facts about sequencing, printing and calling\<close>

lemma and_then_Inl [simp]: "and_then (Inl e, s) f = (Inl e, s)"
  by (simp add: and_then_def)

lemma and_then_Inr [simp]: "and_then (Inr v, s) f = f v s"
  by (simp add: and_then_def)

lemma calls_py_print [simp]: "calls (py_print m s) = calls s"
  by (simp add: py_print_def)

lemma world_py_print [simp]: "world (py_print m s) = world s"
  by (simp add: py_print_def)

lemma printed_py_print [simp]: "printed (py_print m s) = printed s @ [m]"
  by (simp add: py_print_def)

lemma calls_invoke [simp]: "calls (snd (invoke prov c s)) = calls s @ [c]"
  by (simp add: invoke_def split: prod.splits)

lemma printed_invoke [simp]: "printed (snd (invoke prov c s)) = printed s"
  by (simp add: invoke_def split: prod.splits)

lemma world_invoke [simp]: "world (snd (invoke prov c s)) = snd (prov c (world s))"
  by (simp add: invoke_def split: prod.splits)

lemma fst_invoke [simp]: "fst (invoke prov c s) = fst (prov c (world s))"
  by (simp add: invoke_def split: prod.splits)

lemma calls_and_then_unit:
  "calls (snd (and_then m (\<lambda>_ s. (Inr (), py_print x s)))) = calls (snd m)"
  by (cases m) (auto simp: and_then_def split: sum.splits)

lemma create_queue_requests_append [simp]:
  "create_queue_requests (xs @ ys) = create_queue_requests xs @ create_queue_requests ys"
  by (induction xs rule: create_queue_requests.induct) simp_all

lemma set_attributes_requests_append [simp]:
  "set_attributes_requests (xs @ ys) = set_attributes_requests xs @ set_attributes_requests ys"
  by (induction xs rule: set_attributes_requests.induct) simp_all

lemmas run_defs =
  main_def create_s3_bucket_def create_s3_bucket_try_def create_sqs_queue_def
  create_sqs_queue_try_def attach_sqs_policy_def configure_s3_notifications_def
  create_iam_user_def create_iam_user_try_def unpack_pair_def invoke_def py_print_def
  Let_def responses_def default_config_def start_def creation_attributes_def

section \<open>A provider that keeps queues and configurations\<close>

lemma queue_named_response [simp]:
  "queue_named (JStr (''https://sqs.example/'' @ n)) = Some n"
  by (simp add: queue_named_def)

lemma cloud_records_creation: "records_creation cloud_provider queue_attribute"
  unfolding records_creation_def
proof (intro allI impI)
  fix n a w r w' u k v
  assume c: "cloud_provider (SqsCreateQueue n a) w = (Inr r, w')"
    and u: "py_getitem r ''QueueUrl'' = Inr u"
    and k: "map_of a k = Some v"
  show "queue_attribute w' u k = Some v"
  proof (cases "map_of (queues w) n")
    case None
    with c u k show ?thesis
      by (auto simp: cloud_provider_def responses_def queue_attribute_def queue_named_def)
  next
    case (Some a')
    from k have "(k, v) \<in> set a" by (rule map_of_SomeD)
    with c Some have "map_of a' k = Some v" and "w' = w" and "r = responses (SqsCreateQueue n a)"
      by (auto simp: cloud_provider_def list_all_iff split: if_splits)
    with u Some show ?thesis
      by (auto simp: responses_def queue_attribute_def queue_named_def)
  qed
qed

lemma cloud_records_update: "records_update cloud_provider queue_attribute"
  unfolding records_update_def
  by (auto simp: cloud_provider_def queue_attribute_def split: option.splits)

lemma cloud_put_replaces: "put_replaces cloud_provider bucket_notification"
  by (simp add: put_replaces_def cloud_provider_def bucket_notification_def)

lemma cloud_lookup_read_only: "lookup_read_only cloud_provider"
  by (simp add: lookup_read_only_def cloud_provider_def split: option.splits)

section \<open>Storage Provisioner: the location constraint\<close>

lemma calls_create_s3_bucket:
  "calls (snd (create_s3_bucket cfg prov s)) =
     calls s @ [S3CreateBucket (BUCKET_NAME cfg)
                  (if AWS_REGION cfg = ''us-east-1'' then None
                   else Some (JObj [(''LocationConstraint'', JStr (AWS_REGION cfg))]))]"
proof -
  have "calls (snd (create_s3_bucket_try cfg prov s)) =
     calls s @ [S3CreateBucket (BUCKET_NAME cfg)
                  (if AWS_REGION cfg = ''us-east-1'' then None
                   else Some (JObj [(''LocationConstraint'', JStr (AWS_REGION cfg))]))]"
    by (simp add: create_s3_bucket_try_def Let_def calls_and_then_unit)
  then show ?thesis
    by (cases "create_s3_bucket_try cfg prov s")
       (auto simp: create_s3_bucket_def split: sum.splits)
qed

text \<open>
  Claim C4. Whatever the provider and the state of the run, the Storage Provisioner issues
  exactly one call: for the region \<open>us-east-1\<close> a bucket creation without a creation
  configuration, for every other region value a bucket creation whose location constraint
  is that region.
\<close>

theorem bucket_location_constraint:
  "(AWS_REGION cfg = ''us-east-1'' \<longrightarrow>
      calls (snd (create_s3_bucket cfg prov s)) =
        calls s @ [S3CreateBucket (BUCKET_NAME cfg) None]) \<and>
   (AWS_REGION cfg \<noteq> ''us-east-1'' \<longrightarrow>
      calls (snd (create_s3_bucket cfg prov s)) =
        calls s @ [S3CreateBucket (BUCKET_NAME cfg)
                     (Some (JObj [(''LocationConstraint'', JStr (AWS_REGION cfg))]))])"
  by (simp add: calls_create_s3_bucket)

theorem bucket_location_constraint_witness:
  "calls (snd (create_s3_bucket default_config accepting (start ()))) =
     [S3CreateBucket ''audio-transcriber-ingress-bucket'' None] \<and>
   calls (snd (create_s3_bucket (default_config\<lparr>AWS_REGION := ''eu-west-1''\<rparr>)
                 accepting (start ()))) =
     [S3CreateBucket ''audio-transcriber-ingress-bucket''
        (Some (JObj [(''LocationConstraint'', JStr ''eu-west-1'')]))]"
  using bucket_location_constraint [of default_config accepting "start ()"]
    bucket_location_constraint
      [of "default_config\<lparr>AWS_REGION := ''eu-west-1''\<rparr>" accepting "start ()"]
  by (simp add: default_config_def start_def)

section \<open>The handlers of the three provisioners\<close>

lemma create_s3_bucket_returns: "fst (create_s3_bucket cfg prov s) = Inr ()"
  by (cases "create_s3_bucket_try cfg prov s")
     (auto simp: create_s3_bucket_def split: sum.splits)

lemma create_sqs_queue_returns: "\<not> isl (fst (create_sqs_queue cfg prov s))"
  by (cases "create_sqs_queue_try cfg prov s")
     (auto simp: create_sqs_queue_def split: sum.splits)

lemma create_iam_user_returns: "fst (create_iam_user cfg prov q s) = Inr ()"
  by (cases "create_iam_user_try cfg prov q s")
     (auto simp: create_iam_user_def split: sum.splits)

lemma snd_create_sqs_queue:
  "calls (snd (create_sqs_queue cfg prov s)) = calls (snd (create_sqs_queue_try cfg prov s))"
  "world (snd (create_sqs_queue cfg prov s)) = world (snd (create_sqs_queue_try cfg prov s))"
  by (cases "create_sqs_queue_try cfg prov s"; auto simp: create_sqs_queue_def split: sum.splits)+

lemma snd_create_iam_user:
  "calls (snd (create_iam_user cfg prov q s)) = calls (snd (create_iam_user_try cfg prov q s))"
  "world (snd (create_iam_user cfg prov q s)) = world (snd (create_iam_user_try cfg prov q s))"
  by (cases "create_iam_user_try cfg prov q s"; auto simp: create_iam_user_def split: sum.splits)+

lemma create_sqs_queue_try_success:
  assumes "create_sqs_queue_try cfg prov s = (Inr (u, a), s')"
  shows "\<exists>r w qa ats.
           prov (SqsCreateQueue (QUEUE_NAME cfg) creation_attributes) (world s) = (Inr r, w) \<and>
           py_getitem r ''QueueUrl'' = Inr u \<and>
           prov (SqsGetQueueAttributes u [''QueueArn'']) w = (Inr qa, world s') \<and>
           py_getitem qa ''Attributes'' = Inr ats \<and>
           py_getitem ats ''QueueArn'' = Inr a"
  using assms
  by (auto simp: create_sqs_queue_try_def Let_def and_then_def invoke_def
      split: prod.splits sum.splits)

lemma main_after_bucket:
  "main cfg prov s =
     and_then (create_sqs_queue cfg prov (snd (create_s3_bucket cfg prov s)))
       (\<lambda>created s2.
     and_then (unpack_pair created, s2)
       (\<lambda>(queue_url, queue_arn) s2.
     and_then (attach_sqs_policy cfg prov queue_arn s2)
       (\<lambda>_ s3.
     and_then (configure_s3_notifications cfg prov queue_arn s3)
       (\<lambda>_ s4.
     and_then (create_iam_user cfg prov queue_arn s4)
       (\<lambda>_ s5.
     (Inr (), py_print Setup_complete s5))))))"
  unfolding main_def using create_s3_bucket_returns [of cfg prov s]
  by (cases "create_s3_bucket cfg prov s") simp

section \<open>Queue Provisioner: the creation request\<close>

lemma calls_create_sqs_queue_try:
  "\<exists>rest. calls (snd (create_sqs_queue_try cfg prov s)) =
      calls s @ SqsCreateQueue (QUEUE_NAME cfg) creation_attributes # rest \<and>
      create_queue_requests rest = [] \<and> set_attributes_requests rest = [] \<and>
      filter downstream rest = []"
  by (auto simp: create_sqs_queue_try_def Let_def and_then_def invoke_def
      split: prod.splits sum.splits)

lemma requests_create_sqs_queue:
  "create_queue_requests (calls (snd (create_sqs_queue cfg prov s))) =
     create_queue_requests (calls s) @ [(QUEUE_NAME cfg, creation_attributes)]"
  "set_attributes_requests (calls (snd (create_sqs_queue cfg prov s))) =
     set_attributes_requests (calls s)"
  "filter downstream (calls (snd (create_sqs_queue cfg prov s))) =
     filter downstream (calls s)"
  using calls_create_sqs_queue_try [of cfg prov s] by (auto simp: snd_create_sqs_queue)

lemma requests_create_iam_user:
  "create_queue_requests (calls (snd (create_iam_user cfg prov q s))) =
     create_queue_requests (calls s)"
  "set_attributes_requests (calls (snd (create_iam_user cfg prov q s))) =
     set_attributes_requests (calls s)"
  by (auto simp: snd_create_iam_user create_iam_user_try_def Let_def and_then_def invoke_def
      split: prod.splits sum.splits)

lemma calls_configure_s3_notifications:
  "calls (snd (configure_s3_notifications cfg prov q s)) =
     calls s @ [S3PutBucketNotificationConfiguration (BUCKET_NAME cfg)
                  (s3_notification_config q)]"
  by (simp add: configure_s3_notifications_def Let_def calls_and_then_unit)

lemma requests_attach_sqs_policy:
  "create_queue_requests (calls (snd (attach_sqs_policy cfg prov q s))) =
     create_queue_requests (calls s) @ [(QUEUE_NAME cfg, creation_attributes)]"
proof (cases "create_sqs_queue cfg prov (py_print Setting_policy s)")
  case (Pair r s2)
  have "create_queue_requests (calls s2) =
          create_queue_requests (calls s) @ [(QUEUE_NAME cfg, creation_attributes)]"
    using requests_create_sqs_queue(1) [of cfg prov "py_print Setting_policy s"] Pair by simp
  with Pair show ?thesis
    by (auto simp: attach_sqs_policy_def Let_def and_then_def unpack_pair_def invoke_def
        split: prod.splits sum.splits option.splits)
qed

lemma creation_requests_of_run:
  "create_queue_requests (calls (snd (create_sqs_queue cfg prov s))) =
     create_queue_requests (calls s) @
       [(QUEUE_NAME cfg,
         [(''VisibilityTimeout'', ''300''), (''MessageRetentionPeriod'', ''1209600'')])] \<and>
   create_queue_requests (calls (snd (main cfg prov s))) \<in>
     {create_queue_requests (calls s) @
        [(QUEUE_NAME cfg,
          [(''VisibilityTimeout'', ''300''), (''MessageRetentionPeriod'', ''1209600'')])],
      create_queue_requests (calls s) @
        [(QUEUE_NAME cfg,
          [(''VisibilityTimeout'', ''300''), (''MessageRetentionPeriod'', ''1209600'')]),
         (QUEUE_NAME cfg,
          [(''VisibilityTimeout'', ''300''), (''MessageRetentionPeriod'', ''1209600'')])]}"
proof -
  let ?r = "(QUEUE_NAME cfg, creation_attributes)"
  let ?s1 = "snd (create_s3_bucket cfg prov s)"
  obtain c s2 where q: "create_sqs_queue cfg prov ?s1 = (c, s2)"
    by (cases "create_sqs_queue cfg prov ?s1")
  have b: "create_queue_requests (calls ?s1) = create_queue_requests (calls s)"
    by (simp add: calls_create_s3_bucket)
  have s2: "create_queue_requests (calls s2) = create_queue_requests (calls s) @ [?r]"
    using requests_create_sqs_queue(1) [of cfg prov ?s1] q b by simp
  note m = main_after_bucket [of cfg prov s]
  have "create_queue_requests (calls (snd (main cfg prov s))) \<in>
     {create_queue_requests (calls s) @ [?r], create_queue_requests (calls s) @ [?r, ?r]}"
  proof (cases c)
    case (Inl e)
    then show ?thesis using q s2 by (simp add: m)
  next
    case (Inr created)
    show ?thesis
    proof (cases created)
      case None
      then show ?thesis using q s2 Inr by (simp add: m unpack_pair_def)
    next
      case (Some p)
      obtain u a where p: "p = (u, a)" by (cases p)
      obtain r3 s3 where a3: "attach_sqs_policy cfg prov a s2 = (r3, s3)"
        by (cases "attach_sqs_policy cfg prov a s2")
      have s3: "create_queue_requests (calls s3) = create_queue_requests (calls s) @ [?r, ?r]"
        using requests_attach_sqs_policy [of cfg prov a s2] a3 s2 by simp
      obtain r4 s4 where a4: "configure_s3_notifications cfg prov a s3 = (r4, s4)"
        by (cases "configure_s3_notifications cfg prov a s3")
      have s4: "create_queue_requests (calls s4) = create_queue_requests (calls s) @ [?r, ?r]"
        using calls_configure_s3_notifications [of cfg prov a s3] a4 s3 by simp
      obtain r5 s5 where a5: "create_iam_user cfg prov a s4 = (r5, s5)"
        by (cases "create_iam_user cfg prov a s4")
      have s5: "create_queue_requests (calls s5) = create_queue_requests (calls s) @ [?r, ?r]"
        using requests_create_iam_user(1) [of cfg prov a s4] a5 s4 by simp
      show ?thesis
        using q Inr Some p a3 a4 a5 s3 s4 s5
        by (cases r3; cases r4; cases r5) (simp_all add: m unpack_pair_def)
    qed
  qed
  then show ?thesis
    using requests_create_sqs_queue(1) [of cfg prov s]
    by (simp add: creation_attributes_def)
qed

lemma create_sqs_queue_success:
  assumes "fst (create_sqs_queue cfg prov s) = Inr (Some (u, a))"
  shows "create_sqs_queue_try cfg prov s = (Inr (u, a), snd (create_sqs_queue cfg prov s))"
  using assms
  by (cases "create_sqs_queue_try cfg prov s")
     (auto simp: create_sqs_queue_def split: sum.splits)

text \<open>
  Claim C5. Whatever the provider answers, the Queue Provisioner issues exactly one
  queue-creation request, for the configured queue name, and its attributes are exactly
  a visibility timeout of 300 and a message retention period of 1209600; a whole run
  issues this request once or twice (the Access Binder repeats it) and no other
  queue-creation request. With a provider that records the attributes of a creation and
  whose lookup is read-only, the queue the Queue Provisioner returns has, in the state the
  step leaves, a visibility timeout of 300 and a retention period of 1209600.
\<close>

theorem queue_creation_request:
  "create_queue_requests (calls (snd (create_sqs_queue cfg prov s))) =
     create_queue_requests (calls s) @
       [(QUEUE_NAME cfg,
         [(''VisibilityTimeout'', ''300''), (''MessageRetentionPeriod'', ''1209600'')])] \<and>
   create_queue_requests (calls (snd (main cfg prov s))) \<in>
     {create_queue_requests (calls s) @
        [(QUEUE_NAME cfg,
          [(''VisibilityTimeout'', ''300''), (''MessageRetentionPeriod'', ''1209600'')])],
      create_queue_requests (calls s) @
        [(QUEUE_NAME cfg,
          [(''VisibilityTimeout'', ''300''), (''MessageRetentionPeriod'', ''1209600'')]),
         (QUEUE_NAME cfg,
          [(''VisibilityTimeout'', ''300''), (''MessageRetentionPeriod'', ''1209600'')])]} \<and>
   (records_creation prov attr \<longrightarrow> lookup_read_only prov \<longrightarrow>
    fst (create_sqs_queue cfg prov s) = Inr (Some (u, a)) \<longrightarrow>
      attr (world (snd (create_sqs_queue cfg prov s))) u ''VisibilityTimeout'' = Some ''300'' \<and>
      attr (world (snd (create_sqs_queue cfg prov s))) u ''MessageRetentionPeriod'' =
        Some ''1209600'')"
proof -
  have observed:
    "attr (world (snd (create_sqs_queue cfg prov s))) u ''VisibilityTimeout'' = Some ''300'' \<and>
     attr (world (snd (create_sqs_queue cfg prov s))) u ''MessageRetentionPeriod'' =
       Some ''1209600''"
    if rec: "records_creation prov attr" and ro: "lookup_read_only prov"
      and ok: "fst (create_sqs_queue cfg prov s) = Inr (Some (u, a))"
  proof -
    let ?s' = "snd (create_sqs_queue cfg prov s)"
    from create_sqs_queue_try_success [OF create_sqs_queue_success [OF ok]]
    obtain r w qa where
      c: "prov (SqsCreateQueue (QUEUE_NAME cfg) creation_attributes) (world s) = (Inr r, w)" and
      u: "py_getitem r ''QueueUrl'' = Inr u" and
      l: "prov (SqsGetQueueAttributes u [''QueueArn'']) w = (Inr qa, world ?s')"
      by blast
    from ro have "snd (prov (SqsGetQueueAttributes u [''QueueArn'']) w) = w"
      by (simp add: lookup_read_only_def)
    with l have w: "world ?s' = w" by simp
    have "attr w u k = Some v" if "map_of creation_attributes k = Some v" for k v
      using rec c u that unfolding records_creation_def by blast
    then show ?thesis
      by (simp add: w creation_attributes_def)
  qed
  from creation_requests_of_run [of cfg prov s] observed show ?thesis by blast
qed

theorem queue_creation_request_witness:
  "records_creation cloud_provider queue_attribute \<and> lookup_read_only cloud_provider \<and>
   fst (create_sqs_queue default_config cloud_provider (start empty_cloud)) =
     Inr (Some (JStr ''https://sqs.example/audio-transcriber-ingress-queue'',
                JStr ''arn:aws:sqs:us-east-1:123456789012:audio-transcriber-ingress-queue'')) \<and>
   queue_attribute
     (world (snd (create_sqs_queue default_config cloud_provider (start empty_cloud))))
     (JStr ''https://sqs.example/audio-transcriber-ingress-queue'') ''VisibilityTimeout'' =
     Some ''300'' \<and>
   queue_attribute
     (world (snd (create_sqs_queue default_config cloud_provider (start empty_cloud))))
     (JStr ''https://sqs.example/audio-transcriber-ingress-queue'') ''MessageRetentionPeriod'' =
     Some ''1209600''"
proof -
  have ok: "fst (create_sqs_queue default_config cloud_provider (start empty_cloud)) =
     Inr (Some (JStr ''https://sqs.example/audio-transcriber-ingress-queue'',
                JStr ''arn:aws:sqs:us-east-1:123456789012:audio-transcriber-ingress-queue''))"
    by (simp add: run_defs cloud_provider_def empty_cloud_def queue_named_def)
  from queue_creation_request
         [of default_config cloud_provider "start empty_cloud" queue_attribute
             "JStr ''https://sqs.example/audio-transcriber-ingress-queue''"
             "JStr ''arn:aws:sqs:us-east-1:123456789012:audio-transcriber-ingress-queue''"]
       cloud_records_creation cloud_lookup_read_only ok
  show ?thesis by simp
qed

section \<open>Queue Provisioner: failure\<close>

lemma filter_downstream_create_s3_bucket:
  "filter downstream (calls (snd (create_s3_bucket cfg prov s))) = filter downstream (calls s)"
  by (simp add: calls_create_s3_bucket)

text \<open>
  Claim C10. The Queue Provisioner returns \<^verbatim>\<open>None\<close> exactly when an exception was
  raised inside its \<^verbatim>\<open>try\<close> block. When that happens in a run of \<open>main\<close>, the
  handler logs the error, the unpacking of the result in \<open>main\<close> raises a type error,
  and the run ends there: the final state is the state the handler left, and no call of
  the Access Binder, Event Wiring or Identity Provisioner has been issued.
\<close>

theorem queue_failure_aborts_run:
  "(fst (create_sqs_queue cfg prov s) = Inr None) =
     (\<exists>e. fst (create_sqs_queue_try cfg prov s) = Inl e) \<and>
   (create_sqs_queue_try cfg prov (snd (create_s3_bucket cfg prov s)) = (Inl e, s') \<longrightarrow>
      create_sqs_queue cfg prov (snd (create_s3_bucket cfg prov s)) =
        (Inr None, py_print (Error_creating_queue e) s') \<and>
      main cfg prov s = (Inl TypeError, py_print (Error_creating_queue e) s') \<and>
      filter downstream (calls (snd (main cfg prov s))) = filter downstream (calls s))"
proof -
  have a: "(fst (create_sqs_queue cfg prov s) = Inr None) =
     (\<exists>e. fst (create_sqs_queue_try cfg prov s) = Inl e)"
    by (cases "create_sqs_queue_try cfg prov s")
       (auto simp: create_sqs_queue_def split: sum.splits)
  have b: "create_sqs_queue cfg prov (snd (create_s3_bucket cfg prov s)) =
        (Inr None, py_print (Error_creating_queue e) s') \<and>
      main cfg prov s = (Inl TypeError, py_print (Error_creating_queue e) s') \<and>
      filter downstream (calls (snd (main cfg prov s))) = filter downstream (calls s)"
    if t: "create_sqs_queue_try cfg prov (snd (create_s3_bucket cfg prov s)) = (Inl e, s')"
  proof -
    let ?s1 = "snd (create_s3_bucket cfg prov s)"
    have q: "create_sqs_queue cfg prov ?s1 = (Inr None, py_print (Error_creating_queue e) s')"
      using t by (simp add: create_sqs_queue_def)
    have m: "main cfg prov s = (Inl TypeError, py_print (Error_creating_queue e) s')"
      by (simp add: main_after_bucket q unpack_pair_def)
    have "filter downstream (calls (snd (create_sqs_queue cfg prov ?s1))) =
            filter downstream (calls s)"
      by (simp only: requests_create_sqs_queue(3) filter_downstream_create_s3_bucket)
    then have "filter downstream (calls (snd (main cfg prov s))) = filter downstream (calls s)"
      by (simp add: m q)
    with q m show ?thesis by simp
  qed
  from a b show ?thesis by blast
qed

theorem queue_failure_aborts_run_witness:
  "create_sqs_queue_try default_config (rejecting is_get_queue_attributes ''AccessDenied'')
       (snd (create_s3_bucket default_config
          (rejecting is_get_queue_attributes ''AccessDenied'') (start ()))) =
     (Inl (ProviderError ''AccessDenied''),
      \<lparr>world = (),
       calls = [S3CreateBucket ''audio-transcriber-ingress-bucket'' None,
                SqsCreateQueue ''audio-transcriber-ingress-queue''
                  [(''VisibilityTimeout'', ''300''), (''MessageRetentionPeriod'', ''1209600'')],
                SqsGetQueueAttributes
                  (JStr ''https://sqs.example/audio-transcriber-ingress-queue'') [''QueueArn'']],
       printed = [Creating_bucket ''audio-transcriber-ingress-bucket'', Bucket_created,
                  Creating_queue ''audio-transcriber-ingress-queue'']\<rparr>) \<and>
   fst (main default_config (rejecting is_get_queue_attributes ''AccessDenied'') (start ())) =
     Inl TypeError \<and>
   printed (snd (main default_config (rejecting is_get_queue_attributes ''AccessDenied'')
                   (start ()))) =
     [Creating_bucket ''audio-transcriber-ingress-bucket'', Bucket_created,
      Creating_queue ''audio-transcriber-ingress-queue'',
      Error_creating_queue (ProviderError ''AccessDenied'')] \<and>
   filter downstream
     (calls (snd (main default_config (rejecting is_get_queue_attributes ''AccessDenied'')
                    (start ())))) = []"
proof -
  let ?prov = "rejecting is_get_queue_attributes ''AccessDenied''"
  let ?s' = "\<lparr>world = (),
       calls = [S3CreateBucket ''audio-transcriber-ingress-bucket'' None,
                SqsCreateQueue ''audio-transcriber-ingress-queue''
                  [(''VisibilityTimeout'', ''300''), (''MessageRetentionPeriod'', ''1209600'')],
                SqsGetQueueAttributes
                  (JStr ''https://sqs.example/audio-transcriber-ingress-queue'') [''QueueArn'']],
       printed = [Creating_bucket ''audio-transcriber-ingress-bucket'', Bucket_created,
                  Creating_queue ''audio-transcriber-ingress-queue'']\<rparr>"
  have t: "create_sqs_queue_try default_config ?prov
             (snd (create_s3_bucket default_config ?prov (start ()))) =
           (Inl (ProviderError ''AccessDenied''), ?s')"
    by (simp add: create_sqs_queue_try_def create_s3_bucket_def create_s3_bucket_try_def
        default_config_def start_def rejecting_def responses_def invoke_def py_print_def
        creation_attributes_def Let_def)
  from queue_failure_aborts_run
         [of default_config ?prov "start ()" "ProviderError ''AccessDenied''" ?s'] t
  show ?thesis by (simp add: py_print_def start_def)
qed

section \<open>Identity Provisioner: a name that is taken\<close>

text \<open>
  Claim C9. When the provider rejects the creation of the identity (as it does for a name
  that is taken), the Identity Provisioner logs the error and returns; the creation
  request is the only call it has issued, so no policy is created, no policy is attached
  and no access key is minted.
\<close>

theorem name_collision_stops_identity_provisioning:
  "prov (IamCreateUser (IAM_USER_NAME cfg)) (world s) = (Inl e, w) \<Longrightarrow>
   create_iam_user cfg prov q s =
     (Inr (),
      s\<lparr>world := w,
        calls := calls s @ [IamCreateUser (IAM_USER_NAME cfg)],
        printed := printed s @ [Creating_user (IAM_USER_NAME cfg), Error_creating_user e]\<rparr>)"
  by (simp add: create_iam_user_def create_iam_user_try_def Let_def invoke_def py_print_def)

theorem name_collision_stops_identity_provisioning_witness:
  "world (snd (create_iam_user default_config named_users JNull (start []))) =
     [''audio-transcriber-ingress-user''] \<and>
   named_users (IamCreateUser (IAM_USER_NAME default_config))
       [''audio-transcriber-ingress-user''] =
     (Inl (ProviderError ''EntityAlreadyExists''), [''audio-transcriber-ingress-user'']) \<and>
   create_iam_user default_config named_users JNull
       \<lparr>world = [''audio-transcriber-ingress-user''], calls = [], printed = []\<rparr> =
     (Inr (),
      \<lparr>world = [''audio-transcriber-ingress-user''],
       calls = [IamCreateUser ''audio-transcriber-ingress-user''],
       printed = [Creating_user ''audio-transcriber-ingress-user'',
                  Error_creating_user (ProviderError ''EntityAlreadyExists'')]\<rparr>)"
proof -
  have first: "world (snd (create_iam_user default_config named_users JNull (start []))) =
     [''audio-transcriber-ingress-user'']"
    by (simp add: create_iam_user_def create_iam_user_try_def Let_def invoke_def py_print_def
        named_users_def responses_def default_config_def start_def)
  have taken: "named_users (IamCreateUser (IAM_USER_NAME default_config))
       (world \<lparr>world = [''audio-transcriber-ingress-user''], calls = [], printed = []\<rparr>) =
     (Inl (ProviderError ''EntityAlreadyExists''), [''audio-transcriber-ingress-user''])"
    by (simp add: named_users_def default_config_def)
  from name_collision_stops_identity_provisioning
         [of named_users default_config
             "\<lparr>world = [''audio-transcriber-ingress-user''], calls = [], printed = []\<rparr>"
             "ProviderError ''EntityAlreadyExists''" "[''audio-transcriber-ingress-user'']" JNull]
       first taken
  show ?thesis by (simp add: default_config_def)
qed

section \<open>Event Wiring: the notification configuration\<close>

lemma wiring_calls:
  "calls (snd (configure_s3_notifications cfg prov q s)) =
     calls s @
       [S3PutBucketNotificationConfiguration (BUCKET_NAME cfg)
          (JObj [(''QueueConfigurations'',
                  JArr [JObj [(''QueueArn'', q),
                              (''Events'', JArr [JStr ''s3:ObjectCreated:*''])]])])] \<and>
   calls (snd (configure_s3_notifications cfg prov q2
                 (snd (configure_s3_notifications cfg prov q1 s)))) =
     calls s @
       [S3PutBucketNotificationConfiguration (BUCKET_NAME cfg) (s3_notification_config q1),
        S3PutBucketNotificationConfiguration (BUCKET_NAME cfg) (s3_notification_config q2)] \<and>
   queue_destinations (s3_notification_config q2) = [q2]"
  by (simp add: calls_configure_s3_notifications s3_notification_config_def
      queue_destinations_def destination_def)

lemma configure_s3_notifications_success:
  assumes "fst (configure_s3_notifications cfg prov q s) = Inr ()"
  shows "\<exists>r. prov (S3PutBucketNotificationConfiguration (BUCKET_NAME cfg)
                  (s3_notification_config q)) (world s) =
               (Inr r, world (snd (configure_s3_notifications cfg prov q s)))"
  using assms
  by (auto simp: configure_s3_notifications_def Let_def and_then_def invoke_def
      split: prod.splits sum.splits)

lemma installed_notification:
  assumes "put_replaces prov conf"
    and "fst (configure_s3_notifications cfg prov q s) = Inr ()"
  shows "conf (world (snd (configure_s3_notifications cfg prov q s))) (BUCKET_NAME cfg) =
           Some (s3_notification_config q)"
  using configure_s3_notifications_success [OF assms(2)] assms(1)
  unfolding put_replaces_def by blast

text \<open>
  Claim C7. Whatever the provider answers, Event Wiring issues exactly one call: a put, on
  the configured bucket, of a notification configuration with one queue mapping, whose
  destination is the identifier passed in and whose events are all object-created
  events. With a provider whose put replaces, an application that returns leaves the
  bucket with exactly that configuration; and after a second application with another
  identifier the bucket has exactly the configuration of the second, whose only
  destination is the second identifier.
\<close>

theorem event_wiring_request:
  "calls (snd (configure_s3_notifications cfg prov q s)) =
     calls s @
       [S3PutBucketNotificationConfiguration (BUCKET_NAME cfg)
          (JObj [(''QueueConfigurations'',
                  JArr [JObj [(''QueueArn'', q),
                              (''Events'', JArr [JStr ''s3:ObjectCreated:*''])]])])] \<and>
   calls (snd (configure_s3_notifications cfg prov q2
                 (snd (configure_s3_notifications cfg prov q1 s)))) =
     calls s @
       [S3PutBucketNotificationConfiguration (BUCKET_NAME cfg) (s3_notification_config q1),
        S3PutBucketNotificationConfiguration (BUCKET_NAME cfg) (s3_notification_config q2)] \<and>
   queue_destinations (s3_notification_config q2) = [q2] \<and>
   (put_replaces prov conf \<longrightarrow>
    fst (configure_s3_notifications cfg prov q s) = Inr () \<longrightarrow>
      conf (world (snd (configure_s3_notifications cfg prov q s))) (BUCKET_NAME cfg) =
        Some (JObj [(''QueueConfigurations'',
                     JArr [JObj [(''QueueArn'', q),
                                 (''Events'', JArr [JStr ''s3:ObjectCreated:*''])]])])) \<and>
   (put_replaces prov conf \<longrightarrow>
    fst (configure_s3_notifications cfg prov q2
           (snd (configure_s3_notifications cfg prov q1 s))) = Inr () \<longrightarrow>
      conf (world (snd (configure_s3_notifications cfg prov q2
                          (snd (configure_s3_notifications cfg prov q1 s)))))
           (BUCKET_NAME cfg) =
        Some (JObj [(''QueueConfigurations'',
                     JArr [JObj [(''QueueArn'', q2),
                                 (''Events'', JArr [JStr ''s3:ObjectCreated:*''])]])]) \<and>
      map_option queue_destinations
        (conf (world (snd (configure_s3_notifications cfg prov q2
                             (snd (configure_s3_notifications cfg prov q1 s)))))
              (BUCKET_NAME cfg)) = Some [q2])"
  using wiring_calls [of cfg prov q s q2 q1]
    installed_notification [of prov conf cfg q s]
    installed_notification
      [of prov conf cfg q2 "snd (configure_s3_notifications cfg prov q1 s)"]
  by (simp add: s3_notification_config_def queue_destinations_def destination_def)

theorem event_wiring_request_witness:
  "put_replaces cloud_provider bucket_notification \<and>
   bucket_notification
     (world (snd (configure_s3_notifications default_config cloud_provider (JStr ''arn:first'')
        (start (empty_cloud\<lparr>notifications :=
           [(''audio-transcriber-ingress-bucket'',
             JObj [(''TopicConfigurations'', JArr [])])]\<rparr>)))))
     ''audio-transcriber-ingress-bucket'' =
     Some (s3_notification_config (JStr ''arn:first'')) \<and>
   map_option queue_destinations
     (bucket_notification
        (world (snd (configure_s3_notifications default_config cloud_provider (JStr ''arn:second'')
           (snd (configure_s3_notifications default_config cloud_provider (JStr ''arn:first'')
             (start (empty_cloud\<lparr>notifications :=
                [(''audio-transcriber-ingress-bucket'',
                  JObj [(''TopicConfigurations'', JArr [])])]\<rparr>)))))))
        ''audio-transcriber-ingress-bucket'') = Some [JStr ''arn:second'']"
proof -
  let ?s = "start (empty_cloud\<lparr>notifications :=
           [(''audio-transcriber-ingress-bucket'',
             JObj [(''TopicConfigurations'', JArr [])])]\<rparr>)"
  have one: "fst (configure_s3_notifications default_config cloud_provider (JStr ''arn:first'') ?s) =
               Inr ()"
    by (simp add: run_defs cloud_provider_def empty_cloud_def)
  have two: "fst (configure_s3_notifications default_config cloud_provider (JStr ''arn:second'')
               (snd (configure_s3_notifications default_config cloud_provider
                       (JStr ''arn:first'') ?s))) = Inr ()"
    by (simp add: run_defs cloud_provider_def empty_cloud_def)
  from event_wiring_request
         [of default_config cloud_provider "JStr ''arn:first''" ?s "JStr ''arn:second''"
             "JStr ''arn:first''" bucket_notification]
       cloud_put_replaces one two
  show ?thesis
    by (simp add: s3_notification_config_def default_config_def)
qed

section \<open>Access Binder: the queue policy\<close>

lemma policy_updates_requested:
  "set_attributes_requests (calls (snd (attach_sqs_policy cfg prov q s))) =
     set_attributes_requests (calls s) @
       (case fst (create_sqs_queue cfg prov (py_print Setting_policy s)) of
          Inr (Some (queue_url, _)) \<Rightarrow>
            [(queue_url,
              [(''Policy'',
                json_dumps
                  (JObj [(''Version'', JStr ''2012-10-17''),
                         (''Statement'', JArr [
                            JObj [(''Effect'', JStr ''Allow''),
                                  (''Principal'', JObj [(''Service'', JStr ''s3.amazonaws.com'')]),
                                  (''Action'', JStr ''sqs:SendMessage''),
                                  (''Resource'', q),
                                  (''Condition'',
                                     JObj [(''ArnLike'',
                                        JObj [(''aws:SourceArn'',
                                               JStr (''arn:aws:s3:::'' @ BUCKET_NAME cfg))])])]])]))])]
        | _ \<Rightarrow> [])"
proof (cases "create_sqs_queue cfg prov (py_print Setting_policy s)")
  case (Pair r s2)
  have "set_attributes_requests (calls s2) = set_attributes_requests (calls s)"
    using requests_create_sqs_queue(2) [of cfg prov "py_print Setting_policy s"] Pair by simp
  with Pair show ?thesis
    by (auto simp: attach_sqs_policy_def Let_def and_then_def unpack_pair_def invoke_def
        sqs_policy_def simp del: json_dumps.simps
        split: prod.splits sum.splits option.splits)
qed

lemma attach_sqs_policy_success:
  assumes "fst (create_sqs_queue cfg prov (py_print Setting_policy s)) = Inr (Some (u, a))"
    and "fst (attach_sqs_policy cfg prov q s) = Inr ()"
  shows "\<exists>r. prov (SqsSetQueueAttributes u [(''Policy'', json_dumps (sqs_policy cfg q))])
                (world (snd (create_sqs_queue cfg prov (py_print Setting_policy s)))) =
               (Inr r, world (snd (attach_sqs_policy cfg prov q s)))"
  using assms
  by (cases "create_sqs_queue cfg prov (py_print Setting_policy s)")
     (auto simp: attach_sqs_policy_def Let_def and_then_def invoke_def unpack_pair_def
      simp del: json_dumps.simps split: prod.splits sum.splits)

text \<open>
  Claim C6 says that the Access Binder sets the policy for every identifier passed in. It
  sets none when its own queue-creation call yields no address: with a provider that
  rejects the attribute lookup, the Access Binder raises a type error and requests no
  attribute update.
\<close>

theorem binder_without_queue_counterexample:
  "fst (attach_sqs_policy default_config (rejecting is_get_queue_attributes ''AccessDenied'')
          (JStr ''arn:example'') (start ())) = Inl TypeError \<and>
   set_attributes_requests
     (calls (snd (attach_sqs_policy default_config
                    (rejecting is_get_queue_attributes ''AccessDenied'')
                    (JStr ''arn:example'') (start ())))) = []"
  by (simp add: run_defs rejecting_def del: json_dumps.simps)

text \<open>
  Claim C6, amended. The attribute updates the Access Binder requests: when its own
  queue-creation call yields an address, exactly one update, to that address, whose only
  attribute is the whole policy, serialised: one Allow statement for the storage service
  to send messages, with the identifier passed in as resource and a condition on the
  source being the configured bucket's full resource name; when the queue-creation call
  yields no address, no update. With a provider that records attribute updates, once the
  Access Binder has returned, the policy of the queue at that address is exactly this
  document, whatever it was before.
\<close>

theorem access_binder_policy:
  "set_attributes_requests (calls (snd (attach_sqs_policy cfg prov q s))) =
     set_attributes_requests (calls s) @
       (case fst (create_sqs_queue cfg prov (py_print Setting_policy s)) of
          Inr (Some (queue_url, _)) \<Rightarrow>
            [(queue_url,
              [(''Policy'',
                json_dumps
                  (JObj [(''Version'', JStr ''2012-10-17''),
                         (''Statement'', JArr [
                            JObj [(''Effect'', JStr ''Allow''),
                                  (''Principal'', JObj [(''Service'', JStr ''s3.amazonaws.com'')]),
                                  (''Action'', JStr ''sqs:SendMessage''),
                                  (''Resource'', q),
                                  (''Condition'',
                                     JObj [(''ArnLike'',
                                        JObj [(''aws:SourceArn'',
                                               JStr (''arn:aws:s3:::'' @ BUCKET_NAME cfg))])])]])]))])]
        | _ \<Rightarrow> []) \<and>
   (records_update prov attr \<longrightarrow>
    fst (create_sqs_queue cfg prov (py_print Setting_policy s)) = Inr (Some (u, a)) \<longrightarrow>
    fst (attach_sqs_policy cfg prov q s) = Inr () \<longrightarrow>
      attr (world (snd (attach_sqs_policy cfg prov q s))) u ''Policy'' =
        Some (json_dumps
                (JObj [(''Version'', JStr ''2012-10-17''),
                       (''Statement'', JArr [
                          JObj [(''Effect'', JStr ''Allow''),
                                (''Principal'', JObj [(''Service'', JStr ''s3.amazonaws.com'')]),
                                (''Action'', JStr ''sqs:SendMessage''),
                                (''Resource'', q),
                                (''Condition'',
                                   JObj [(''ArnLike'',
                                      JObj [(''aws:SourceArn'',
                                             JStr (''arn:aws:s3:::'' @ BUCKET_NAME cfg))])])]])])))"
proof -
  have "attr (world (snd (attach_sqs_policy cfg prov q s))) u ''Policy'' =
          Some (json_dumps (sqs_policy cfg q))"
    if rec: "records_update prov attr"
      and ok: "fst (create_sqs_queue cfg prov (py_print Setting_policy s)) = Inr (Some (u, a))"
      and ret: "fst (attach_sqs_policy cfg prov q s) = Inr ()"
  proof -
    from attach_sqs_policy_success [OF ok ret] obtain r where
      "prov (SqsSetQueueAttributes u [(''Policy'', json_dumps (sqs_policy cfg q))])
         (world (snd (create_sqs_queue cfg prov (py_print Setting_policy s)))) =
         (Inr r, world (snd (attach_sqs_policy cfg prov q s)))"
      by blast
    moreover have "map_of [(''Policy'', json_dumps (sqs_policy cfg q))] ''Policy'' =
                     Some (json_dumps (sqs_policy cfg q))"
      by simp
    ultimately show ?thesis
      using rec unfolding records_update_def by blast
  qed
  then have observed: "records_update prov attr \<longrightarrow>
    fst (create_sqs_queue cfg prov (py_print Setting_policy s)) = Inr (Some (u, a)) \<longrightarrow>
    fst (attach_sqs_policy cfg prov q s) = Inr () \<longrightarrow>
      attr (world (snd (attach_sqs_policy cfg prov q s))) u ''Policy'' =
        Some (json_dumps (sqs_policy cfg q))"
    by blast
  show ?thesis
    using policy_updates_requested [of cfg prov q s] observed
    unfolding sqs_policy_def by blast
qed

theorem access_binder_policy_witness:
  "records_update cloud_provider queue_attribute \<and>
   queue_attribute cloud_with_grant
     (JStr ''https://sqs.example/audio-transcriber-ingress-queue'') ''Policy'' =
     Some ''earlier-policy'' \<and>
   fst (attach_sqs_policy default_config cloud_provider (JStr ''arn:example'')
          (start cloud_with_grant)) = Inr () \<and>
   queue_attribute
     (world (snd (attach_sqs_policy default_config cloud_provider (JStr ''arn:example'')
                    (start cloud_with_grant))))
     (JStr ''https://sqs.example/audio-transcriber-ingress-queue'') ''Policy'' =
     Some (json_dumps (sqs_policy default_config (JStr ''arn:example'')))"
proof -
  have before: "queue_attribute cloud_with_grant
     (JStr ''https://sqs.example/audio-transcriber-ingress-queue'') ''Policy'' =
     Some ''earlier-policy''"
    by (simp add: queue_attribute_def queue_named_def cloud_with_grant_def)
  have ok: "fst (create_sqs_queue default_config cloud_provider
                  (py_print Setting_policy (start cloud_with_grant))) =
     Inr (Some (JStr ''https://sqs.example/audio-transcriber-ingress-queue'',
                JStr ''arn:aws:sqs:us-east-1:123456789012:audio-transcriber-ingress-queue''))"
    by (simp add: run_defs cloud_provider_def cloud_with_grant_def queue_named_def)
  have ret: "fst (attach_sqs_policy default_config cloud_provider (JStr ''arn:example'')
          (start cloud_with_grant)) = Inr ()"
    by (simp add: run_defs cloud_provider_def cloud_with_grant_def queue_named_def
        del: json_dumps.simps)
  from access_binder_policy
         [of default_config cloud_provider "JStr ''arn:example''" "start cloud_with_grant"
             queue_attribute "JStr ''https://sqs.example/audio-transcriber-ingress-queue''"
             "JStr ''arn:aws:sqs:us-east-1:123456789012:audio-transcriber-ingress-queue''"]
       cloud_records_update before ok ret
  show ?thesis
    by (simp add: sqs_policy_def default_config_def del: json_dumps.simps)
qed

section \<open>Which failures stop the run\<close>

text \<open>
  Claim C1 says that for every failure at any step the run still proceeds through all five
  steps. It does not: with a provider that rejects the attribute update of the Access
  Binder, the exception leaves \<open>main\<close>, and the run prints nothing of Event Wiring or
  of the Identity Provisioner.
\<close>

theorem binder_failure_counterexample:
  "fst (main default_config (rejecting is_set_queue_attributes ''AccessDenied'') (start ())) =
     Inl (ProviderError ''AccessDenied'') \<and>
   printed (snd (main default_config (rejecting is_set_queue_attributes ''AccessDenied'')
                   (start ()))) =
     [Creating_bucket ''audio-transcriber-ingress-bucket'', Bucket_created,
      Creating_queue ''audio-transcriber-ingress-queue'',
      Queue_created
        (JStr ''arn:aws:sqs:us-east-1:123456789012:audio-transcriber-ingress-queue''),
      Setting_policy,
      Creating_queue ''audio-transcriber-ingress-queue'',
      Queue_created
        (JStr ''arn:aws:sqs:us-east-1:123456789012:audio-transcriber-ingress-queue'')]"
  by (simp add: run_defs rejecting_def del: json_dumps.simps)

lemma main_after_queue:
  "fst (create_s3_bucket cfg prov s) = Inr () \<and>
   \<not> isl (fst (create_sqs_queue cfg prov s)) \<and>
   fst (create_iam_user cfg prov q s) = Inr () \<and>
   (create_sqs_queue cfg prov (snd (create_s3_bucket cfg prov s)) = (Inr (Some (u, a)), s2) \<longrightarrow>
      main cfg prov s =
        (case attach_sqs_policy cfg prov a s2 of
           (Inl e, s3) \<Rightarrow> (Inl e, s3)
         | (Inr _, s3) \<Rightarrow>
             (case configure_s3_notifications cfg prov a s3 of
                (Inl e, s4) \<Rightarrow> (Inl e, s4)
              | (Inr _, s4) \<Rightarrow>
                  (Inr (), py_print Setup_complete (snd (create_iam_user cfg prov a s4))))))"
proof -
  have "main cfg prov s =
        (case attach_sqs_policy cfg prov a s2 of
           (Inl e, s3) \<Rightarrow> (Inl e, s3)
         | (Inr _, s3) \<Rightarrow>
             (case configure_s3_notifications cfg prov a s3 of
                (Inl e, s4) \<Rightarrow> (Inl e, s4)
              | (Inr _, s4) \<Rightarrow>
                  (Inr (), py_print Setup_complete (snd (create_iam_user cfg prov a s4)))))"
    if q: "create_sqs_queue cfg prov (snd (create_s3_bucket cfg prov s)) = (Inr (Some (u, a)), s2)"
  proof -
    have i: "and_then (create_iam_user cfg prov a s4) (\<lambda>_ s5. (Inr (), py_print Setup_complete s5)) =
          (Inr (), py_print Setup_complete (snd (create_iam_user cfg prov a s4)))" for s4
      using create_iam_user_returns [of cfg prov a s4]
      by (cases "create_iam_user cfg prov a s4") simp
    show ?thesis
      by (simp add: main_after_bucket q unpack_pair_def i)
         (simp add: and_then_def split: prod.splits sum.splits)
  qed
  then show ?thesis
    by (simp add: create_s3_bucket_returns create_sqs_queue_returns create_iam_user_returns)
qed

lemma handler_logs:
  "create_s3_bucket_try cfg prov s = (Inl e, s') \<Longrightarrow>
     create_s3_bucket cfg prov s = (Inr (), py_print (Error_creating_bucket e) s')"
  "create_sqs_queue_try cfg prov s = (Inl e, s') \<Longrightarrow>
     create_sqs_queue cfg prov s = (Inr None, py_print (Error_creating_queue e) s')"
  "create_iam_user_try cfg prov q s = (Inl e, s') \<Longrightarrow>
     create_iam_user cfg prov q s = (Inr (), py_print (Error_creating_user e) s')"
  by (simp_all add: create_s3_bucket_def create_sqs_queue_def create_iam_user_def)

lemma configure_s3_notifications_raises:
  "prov (S3PutBucketNotificationConfiguration (BUCKET_NAME cfg) (s3_notification_config q))
       (world s) = (Inl e, w) \<Longrightarrow>
   configure_s3_notifications cfg prov q s =
     (Inl e,
      s\<lparr>world := w,
        calls := calls s @ [S3PutBucketNotificationConfiguration (BUCKET_NAME cfg)
                             (s3_notification_config q)],
        printed := printed s @ [Configuring_notifications]\<rparr>)"
  by (simp add: configure_s3_notifications_def Let_def invoke_def py_print_def)

lemma attach_sqs_policy_raises:
  "create_sqs_queue cfg prov (py_print Setting_policy s) = (Inr (Some (u, a)), s2) \<Longrightarrow>
   prov (SqsSetQueueAttributes u [(''Policy'', json_dumps (sqs_policy cfg q))]) (world s2) =
     (Inl e, w) \<Longrightarrow>
   attach_sqs_policy cfg prov q s =
     (Inl e,
      s2\<lparr>world := w,
         calls := calls s2 @
           [SqsSetQueueAttributes u [(''Policy'', json_dumps (sqs_policy cfg q))]]\<rparr>)"
  by (simp add: attach_sqs_policy_def Let_def invoke_def unpack_pair_def del: json_dumps.simps)

text \<open>
  Claim C1, amended. The Storage Provisioner, the Queue Provisioner and the Identity
  Provisioner always return normally, and an exception raised inside one of them is
  logged by it. Event Wiring and the Access Binder have no handler: an exception the
  provider raises on the notification put leaves Event Wiring, and one it raises on the
  attribute update leaves the Access Binder. Once the Queue Provisioner has returned a
  pair, an exception raised in the Access Binder or in Event Wiring is the result of
  \<open>main\<close>, in the state where it was raised; when neither raises, the run goes on
  through the Identity Provisioner to its last line, whatever failed in the Storage
  Provisioner or the Identity Provisioner.
\<close>

theorem failures_by_step:
  "fst (create_s3_bucket cfg prov s) = Inr () \<and>
   \<not> isl (fst (create_sqs_queue cfg prov s)) \<and>
   fst (create_iam_user cfg prov q s) = Inr () \<and>
   (create_s3_bucket_try cfg prov s = (Inl e, s') \<longrightarrow>
      create_s3_bucket cfg prov s = (Inr (), py_print (Error_creating_bucket e) s')) \<and>
   (create_sqs_queue_try cfg prov s = (Inl e, s') \<longrightarrow>
      create_sqs_queue cfg prov s = (Inr None, py_print (Error_creating_queue e) s')) \<and>
   (create_iam_user_try cfg prov q s = (Inl e, s') \<longrightarrow>
      create_iam_user cfg prov q s = (Inr (), py_print (Error_creating_user e) s')) \<and>
   (prov (S3PutBucketNotificationConfiguration (BUCKET_NAME cfg) (s3_notification_config q))
        (world s) = (Inl e, w) \<longrightarrow>
      configure_s3_notifications cfg prov q s =
        (Inl e,
         s\<lparr>world := w,
           calls := calls s @ [S3PutBucketNotificationConfiguration (BUCKET_NAME cfg)
                                (s3_notification_config q)],
           printed := printed s @ [Configuring_notifications]\<rparr>)) \<and>
   (create_sqs_queue cfg prov (py_print Setting_policy s) = (Inr (Some (u', a')), tq) \<longrightarrow>
    prov (SqsSetQueueAttributes u' [(''Policy'', json_dumps (sqs_policy cfg q))]) (world tq) =
      (Inl e, w) \<longrightarrow>
      attach_sqs_policy cfg prov q s =
        (Inl e,
         tq\<lparr>world := w,
            calls := calls tq @
              [SqsSetQueueAttributes u' [(''Policy'', json_dumps (sqs_policy cfg q))]]\<rparr>)) \<and>
   (create_sqs_queue cfg prov (snd (create_s3_bucket cfg prov s)) = (Inr (Some (u, a)), sq) \<longrightarrow>
      main cfg prov s =
        (case attach_sqs_policy cfg prov a sq of
           (Inl e, s3) \<Rightarrow> (Inl e, s3)
         | (Inr _, s3) \<Rightarrow>
             (case configure_s3_notifications cfg prov a s3 of
                (Inl e, s4) \<Rightarrow> (Inl e, s4)
              | (Inr _, s4) \<Rightarrow>
                  (Inr (), py_print Setup_complete (snd (create_iam_user cfg prov a s4))))))"
  using main_after_queue [of cfg prov s q u a sq]
    handler_logs(1) [of cfg prov s e s'] handler_logs(2) [of cfg prov s e s']
    handler_logs(3) [of cfg prov q s e s']
    configure_s3_notifications_raises [of prov cfg q s e w]
    attach_sqs_policy_raises [of cfg prov s u' a' tq q e w]
  by blast

theorem failures_by_step_witness:
  "create_s3_bucket default_config (rejecting is_create_bucket ''AccessDenied'') (start ()) =
     (Inr (),
      \<lparr>world = (), calls = [S3CreateBucket ''audio-transcriber-ingress-bucket'' None],
       printed = [Creating_bucket ''audio-transcriber-ingress-bucket'',
                  Error_creating_bucket (ProviderError ''AccessDenied'')]\<rparr>) \<and>
   create_sqs_queue default_config (rejecting is_get_queue_attributes ''AccessDenied'')
       (start ()) =
     (Inr None,
      \<lparr>world = (),
       calls = [SqsCreateQueue ''audio-transcriber-ingress-queue''
                  [(''VisibilityTimeout'', ''300''), (''MessageRetentionPeriod'', ''1209600'')],
                SqsGetQueueAttributes
                  (JStr ''https://sqs.example/audio-transcriber-ingress-queue'') [''QueueArn'']],
       printed = [Creating_queue ''audio-transcriber-ingress-queue'',
                  Error_creating_queue (ProviderError ''AccessDenied'')]\<rparr>) \<and>
   create_iam_user default_config (rejecting is_create_user ''AccessDenied'') JNull (start ()) =
     (Inr (),
      \<lparr>world = (), calls = [IamCreateUser ''audio-transcriber-ingress-user''],
       printed = [Creating_user ''audio-transcriber-ingress-user'',
                  Error_creating_user (ProviderError ''AccessDenied'')]\<rparr>) \<and>
   configure_s3_notifications default_config (rejecting is_put_notification ''AccessDenied'')
       (JStr ''arn:example'') (start ()) =
     (Inl (ProviderError ''AccessDenied''),
      \<lparr>world = (),
       calls = [S3PutBucketNotificationConfiguration ''audio-transcriber-ingress-bucket''
                  (s3_notification_config (JStr ''arn:example''))],
       printed = [Configuring_notifications]\<rparr>) \<and>
   fst (attach_sqs_policy default_config (rejecting is_set_queue_attributes ''AccessDenied'')
          (JStr ''arn:example'') (start ())) = Inl (ProviderError ''AccessDenied'') \<and>
   fst (main default_config
          (rejecting (\<lambda>c. is_create_bucket c \<or> is_create_user c) ''AccessDenied'') (start ())) =
     Inr () \<and>
   printed (snd (main default_config
          (rejecting (\<lambda>c. is_create_bucket c \<or> is_create_user c) ''AccessDenied'') (start ()))) =
     [Creating_bucket ''audio-transcriber-ingress-bucket'',
      Error_creating_bucket (ProviderError ''AccessDenied''),
      Creating_queue ''audio-transcriber-ingress-queue'',
      Queue_created
        (JStr ''arn:aws:sqs:us-east-1:123456789012:audio-transcriber-ingress-queue''),
      Setting_policy,
      Creating_queue ''audio-transcriber-ingress-queue'',
      Queue_created
        (JStr ''arn:aws:sqs:us-east-1:123456789012:audio-transcriber-ingress-queue''),
      Policy_set, Configuring_notifications, Notifications_configured,
      Creating_user ''audio-transcriber-ingress-user'',
      Error_creating_user (ProviderError ''AccessDenied''),
      Setup_complete]"
proof -
  let ?e = "ProviderError ''AccessDenied''"
  let ?u = "JStr ''https://sqs.example/audio-transcriber-ingress-queue''"
  let ?a = "JStr ''arn:aws:sqs:us-east-1:123456789012:audio-transcriber-ingress-queue''"
  let ?create = "SqsCreateQueue ''audio-transcriber-ingress-queue''
                  [(''VisibilityTimeout'', ''300''), (''MessageRetentionPeriod'', ''1209600'')]"
  let ?lookup = "SqsGetQueueAttributes ?u [''QueueArn'']"
  let ?b = "\<lparr>world = (), calls = [S3CreateBucket ''audio-transcriber-ingress-bucket'' None],
             printed = [Creating_bucket ''audio-transcriber-ingress-bucket'']\<rparr>"
  have "create_s3_bucket_try default_config (rejecting is_create_bucket ''AccessDenied'')
          (start ()) = (Inl ?e, ?b)"
    by (simp add: run_defs rejecting_def)
  note bucket = failures_by_step
    [where cfg = default_config and prov = "rejecting is_create_bucket ''AccessDenied''"
       and s = "start ()" and e = ?e and s' = ?b,
     THEN conjunct2, THEN conjunct2, THEN conjunct2, THEN conjunct1, THEN mp, OF this]
  let ?q = "\<lparr>world = (), calls = [?create, ?lookup],
             printed = [Creating_queue ''audio-transcriber-ingress-queue'']\<rparr>"
  have "create_sqs_queue_try default_config (rejecting is_get_queue_attributes ''AccessDenied'')
          (start ()) = (Inl ?e, ?q)"
    by (simp add: run_defs rejecting_def)
  note queue = failures_by_step
    [where cfg = default_config and prov = "rejecting is_get_queue_attributes ''AccessDenied''"
       and s = "start ()" and e = ?e and s' = ?q,
     THEN conjunct2, THEN conjunct2, THEN conjunct2, THEN conjunct2, THEN conjunct1,
     THEN mp, OF this]
  let ?i = "\<lparr>world = (), calls = [IamCreateUser ''audio-transcriber-ingress-user''],
             printed = [Creating_user ''audio-transcriber-ingress-user'']\<rparr>"
  have "create_iam_user_try default_config (rejecting is_create_user ''AccessDenied'') JNull
          (start ()) = (Inl ?e, ?i)"
    by (simp add: run_defs rejecting_def)
  note user = failures_by_step
    [where cfg = default_config and prov = "rejecting is_create_user ''AccessDenied''"
       and s = "start ()" and q = JNull and e = ?e and s' = ?i,
     THEN conjunct2, THEN conjunct2, THEN conjunct2, THEN conjunct2, THEN conjunct2,
     THEN conjunct1, THEN mp, OF this]
  have "rejecting is_put_notification ''AccessDenied''
          (S3PutBucketNotificationConfiguration (BUCKET_NAME default_config)
             (s3_notification_config (JStr ''arn:example''))) (world (start ())) =
        (Inl ?e, ())"
    by (simp add: rejecting_def)
  note wiring = failures_by_step
    [where cfg = default_config and prov = "rejecting is_put_notification ''AccessDenied''"
       and s = "start ()" and q = "JStr ''arn:example''" and e = ?e and w = "()",
     THEN conjunct2, THEN conjunct2, THEN conjunct2, THEN conjunct2, THEN conjunct2,
     THEN conjunct2, THEN conjunct1, THEN mp, OF this]
  let ?t2 = "\<lparr>world = (), calls = [?create, ?lookup],
              printed = [Setting_policy, Creating_queue ''audio-transcriber-ingress-queue'',
                         Queue_created ?a]\<rparr>"
  have created: "create_sqs_queue default_config
          (rejecting is_set_queue_attributes ''AccessDenied'')
          (py_print Setting_policy (start ())) = (Inr (Some (?u, ?a)), ?t2)"
    by (simp add: run_defs rejecting_def)
  have rejected: "rejecting is_set_queue_attributes ''AccessDenied''
          (SqsSetQueueAttributes ?u
             [(''Policy'', json_dumps (sqs_policy default_config (JStr ''arn:example'')))])
          (world ?t2) = (Inl ?e, ())"
    by (simp add: rejecting_def del: json_dumps.simps)
  note access = failures_by_step
    [where cfg = default_config and prov = "rejecting is_set_queue_attributes ''AccessDenied''"
       and s = "start ()" and q = "JStr ''arn:example''" and e = ?e and w = "()"
       and u' = ?u and a' = ?a and tq = ?t2,
     THEN conjunct2, THEN conjunct2, THEN conjunct2, THEN conjunct2, THEN conjunct2,
     THEN conjunct2, THEN conjunct2, THEN conjunct1, THEN mp, THEN mp, OF created rejected]
  let ?prov = "rejecting (\<lambda>c. is_create_bucket c \<or> is_create_user c) ''AccessDenied''"
  let ?s2 = "\<lparr>world = (),
       calls = [S3CreateBucket ''audio-transcriber-ingress-bucket'' None, ?create, ?lookup],
       printed = [Creating_bucket ''audio-transcriber-ingress-bucket'',
                  Error_creating_bucket ?e,
                  Creating_queue ''audio-transcriber-ingress-queue'',
                  Queue_created ?a]\<rparr>"
  have "create_sqs_queue default_config ?prov
             (snd (create_s3_bucket default_config ?prov (start ()))) =
           (Inr (Some (?u, ?a)), ?s2)"
    by (simp add: run_defs rejecting_def)
  note run = failures_by_step
    [where cfg = default_config and prov = ?prov and s = "start ()" and u = ?u and a = ?a
       and sq = ?s2,
     THEN conjunct2, THEN conjunct2, THEN conjunct2, THEN conjunct2, THEN conjunct2,
     THEN conjunct2, THEN conjunct2, THEN conjunct2, THEN mp, OF this]
  have main: "fst (main default_config ?prov (start ())) = Inr () \<and>
      printed (snd (main default_config ?prov (start ()))) =
     [Creating_bucket ''audio-transcriber-ingress-bucket'',
      Error_creating_bucket ?e,
      Creating_queue ''audio-transcriber-ingress-queue'',
      Queue_created ?a,
      Setting_policy,
      Creating_queue ''audio-transcriber-ingress-queue'',
      Queue_created ?a,
      Policy_set, Configuring_notifications, Notifications_configured,
      Creating_user ''audio-transcriber-ingress-user'',
      Error_creating_user ?e,
      Setup_complete]"
    unfolding run by (simp add: run_defs rejecting_def del: json_dumps.simps)
  have "fst (attach_sqs_policy default_config (rejecting is_set_queue_attributes ''AccessDenied'')
          (JStr ''arn:example'') (start ())) = Inl ?e"
    unfolding access by simp
  with bucket queue user wiring main show ?thesis
    by (simp add: py_print_def default_config_def start_def)
qed

section \<open>Identity Provisioner: the queue resource of the policy\<close>

lemma create_iam_user_ignores_identifier:
  "create_iam_user cfg prov q s = create_iam_user cfg prov q' s"
  by (simp add: create_iam_user_def create_iam_user_try_def)

text \<open>
  Claim C2, at the configuration of the source and a provider that resolves the queue to
  \<open>arn:aws:sqs:us-east-1:123456789012:audio-transcriber-ingress-queue\<close>: the run
  creates the identity's policy from \<open>policy_document\<close>, and the resolved identifier is
  not among the resources of that document. The Identity Provisioner receives the resolved
  identifier and does not use it; it assembles a queue resource of its own.
\<close>

theorem identity_policy_queue_resource_not_resolved:
  "fst (create_sqs_queue default_config accepting (start ())) =
     Inr (Some (JStr ''https://sqs.example/audio-transcriber-ingress-queue'',
                JStr ''arn:aws:sqs:us-east-1:123456789012:audio-transcriber-ingress-queue'')) \<and>
   IamCreatePolicy ''AudioTranscriberIngressPolicy'' (json_dumps (policy_document default_config))
     \<in> set (calls (snd (main default_config accepting (start ())))) \<and>
   JStr ''arn:aws:sqs:us-east-1:123456789012:audio-transcriber-ingress-queue''
     \<notin> set (resources (policy_document default_config))"
proof -
  have "JStr ''arn:aws:sqs:us-east-1:123456789012:audio-transcriber-ingress-queue''
     \<notin> set (resources (policy_document default_config))"
    by (simp add: resources_def statements_def field_values_def policy_document_def
        default_config_def)
  moreover have "fst (create_sqs_queue default_config accepting (start ())) =
     Inr (Some (JStr ''https://sqs.example/audio-transcriber-ingress-queue'',
                JStr ''arn:aws:sqs:us-east-1:123456789012:audio-transcriber-ingress-queue''))"
    by (simp add: run_defs accepting_def)
  moreover have "IamCreatePolicy ''AudioTranscriberIngressPolicy''
       (json_dumps (policy_document default_config))
     \<in> set (calls (snd (main default_config accepting (start ()))))"
    by (simp add: run_defs accepting_def del: json_dumps.simps)
  ultimately show ?thesis by simp
qed

text \<open>
  Claim C3, at the configuration of the source: the actions of the identity's policy are
  the five declared ones, and its resources are the objects of the configured bucket and
  a queue resource whose account segment is \<open>*\<close> and whose queue name follows a space.
\<close>

theorem identity_policy_grants:
  "actions (policy_document default_config) =
     [JStr ''s3:PutObject'', JStr ''s3:GetObject'', JStr ''sqs:ReceiveMessage'',
      JStr ''sqs:DeleteMessage'', JStr ''sqs:GetQueueAttributes''] \<and>
   resources (policy_document default_config) =
     [JStr ''arn:aws:s3:::audio-transcriber-ingress-bucket/*'',
      JStr ''arn:aws:sqs:us-east-1:*: audio-transcriber-ingress-queue'']"
  by (simp add: actions_def resources_def statements_def field_values_def policy_document_def
      default_config_def)

section \<open>The redundant queue creation of the Access Binder\<close>

lemma agree_refl [simp]: "agree s s"
  by (simp add: agree_def)

lemma agree_py_print [simp]:
  "agree (py_print m s) t = agree s t" "agree s (py_print m t) = agree s t"
  by (simp_all add: agree_def)

lemma alike_pair [simp]: "alike (r, s) (r', t) = (r = r' \<and> agree s t)"
  by (simp add: alike_def)

lemma alike_invoke: "agree s t \<Longrightarrow> alike (invoke prov c s) (invoke prov c t)"
  by (simp add: alike_def agree_def)

lemma alike_and_then:
  assumes "alike m m'" and "\<And>v s t. agree s t \<Longrightarrow> alike (f v s) (f' v t)"
  shows "alike (and_then m f) (and_then m' f')"
proof (cases m; cases m')
  fix r s r' t
  assume m: "m = (r, s)" and m': "m' = (r', t)"
  with assms(1) have "r = r'" and "agree s t" by simp_all
  with m m' assms(2) show ?thesis
    by (cases r') (auto simp: and_then_def)
qed

lemma alike_create_sqs_queue:
  assumes "agree s t"
  shows "alike (create_sqs_queue cfg prov s) (create_sqs_queue cfg prov t)"
proof -
  have "alike (create_sqs_queue_try cfg prov s) (create_sqs_queue_try cfg prov t)"
    unfolding create_sqs_queue_try_def Let_def
    by (intro alike_and_then alike_invoke) (simp_all add: assms)
  then show ?thesis
    by (cases "create_sqs_queue_try cfg prov s"; cases "create_sqs_queue_try cfg prov t")
       (auto simp: create_sqs_queue_def split: sum.splits)
qed

lemma alike_configure_s3_notifications:
  assumes "agree s t"
  shows "alike (configure_s3_notifications cfg prov q s) (configure_s3_notifications cfg prov q t)"
  unfolding configure_s3_notifications_def Let_def
  by (intro alike_and_then alike_invoke) (simp_all add: assms)

lemma alike_create_iam_user:
  assumes "agree s t"
  shows "alike (create_iam_user cfg prov q s) (create_iam_user cfg prov q t)"
proof -
  have "alike (create_iam_user_try cfg prov q s) (create_iam_user_try cfg prov q t)"
    unfolding create_iam_user_try_def Let_def
    by (intro alike_and_then alike_invoke) (simp_all add: assms)
  then show ?thesis
    by (cases "create_iam_user_try cfg prov q s"; cases "create_iam_user_try cfg prov q t")
       (auto simp: create_iam_user_def split: sum.splits)
qed

lemma create_sqs_queue_try_run:
  assumes "prov (SqsCreateQueue (QUEUE_NAME cfg) creation_attributes) (world t) = (Inr r, w)"
    and "py_getitem r ''QueueUrl'' = Inr u"
    and "prov (SqsGetQueueAttributes u [''QueueArn'']) w = (Inr qa, w')"
    and "py_getitem qa ''Attributes'' = Inr ats"
    and "py_getitem ats ''QueueArn'' = Inr a"
  shows "fst (create_sqs_queue_try cfg prov t) = Inr (u, a) \<and>
         world (snd (create_sqs_queue_try cfg prov t)) = w'"
  using assms
  by (simp add: create_sqs_queue_try_def Let_def invoke_def)

lemma repeated_create_sqs_queue:
  assumes idem: "queue_creation_idempotent prov" and ro: "lookup_read_only prov"
    and first: "create_sqs_queue cfg prov s = (Inr (Some (u, a)), s')"
    and t: "world t = world s'"
  shows "fst (create_sqs_queue cfg prov t) = Inr (Some (u, a)) \<and>
         agree (snd (create_sqs_queue cfg prov t)) t"
proof -
  from first have body: "create_sqs_queue_try cfg prov s = (Inr (u, a), s')"
    by (cases "create_sqs_queue_try cfg prov s")
       (auto simp: create_sqs_queue_def split: sum.splits)
  from create_sqs_queue_try_success [OF body] obtain r w qa ats where
    c: "prov (SqsCreateQueue (QUEUE_NAME cfg) creation_attributes) (world s) = (Inr r, w)" and
    u: "py_getitem r ''QueueUrl'' = Inr u" and
    l: "prov (SqsGetQueueAttributes u [''QueueArn'']) w = (Inr qa, world s')" and
    ats: "py_getitem qa ''Attributes'' = Inr ats" and
    a: "py_getitem ats ''QueueArn'' = Inr a"
    by blast
  from ro have "snd (prov (SqsGetQueueAttributes u [''QueueArn'']) w) = w"
    by (simp add: lookup_read_only_def)
  with l have w: "world s' = w" by simp
  from idem c have "prov (SqsCreateQueue (QUEUE_NAME cfg) creation_attributes) w = (Inr r, w)"
    unfolding queue_creation_idempotent_def by blast
  with t w have c': "prov (SqsCreateQueue (QUEUE_NAME cfg) creation_attributes) (world t) = (Inr r, w)"
    by simp
  from l w have l': "prov (SqsGetQueueAttributes u [''QueueArn'']) w = (Inr qa, w)" by simp
  from create_sqs_queue_try_run [OF c' u l' ats a]
  have r: "fst (create_sqs_queue_try cfg prov t) = Inr (u, a)"
    and ww: "world (snd (create_sqs_queue_try cfg prov t)) = w" by simp_all
  from r have "fst (create_sqs_queue cfg prov t) = Inr (Some (u, a))"
    by (cases "create_sqs_queue_try cfg prov t") (simp add: create_sqs_queue_def)
  moreover have "agree (snd (create_sqs_queue cfg prov t)) t"
    using ww t w
    by (simp add: agree_def snd_create_sqs_queue(2) requests_create_sqs_queue(2))
  ultimately show ?thesis by simp
qed

lemma alike_attach_sqs_policy:
  assumes idem: "queue_creation_idempotent prov" and ro: "lookup_read_only prov"
    and first: "create_sqs_queue cfg prov s = (Inr (Some (u, a)), s')"
    and t: "agree s2 s'" and t': "agree s2' s'"
  shows "alike (attach_sqs_policy cfg prov a s2) (attach_sqs_policy_threaded cfg prov u a s2')"
proof -
  let ?t = "py_print Setting_policy s2"
  have wt: "world ?t = world s'" using t by (simp add: agree_def)
  obtain c t2 where q: "create_sqs_queue cfg prov ?t = (c, t2)"
    by (cases "create_sqs_queue cfg prov ?t")
  from repeated_create_sqs_queue [OF idem ro first wt] q
  have c: "c = Inr (Some (u, a))" and ag: "agree t2 ?t" by simp_all
  from ag t t' have "agree t2 (py_print Setting_policy s2')"
    by (simp add: agree_def)
  then have "alike
      (and_then (invoke prov (SqsSetQueueAttributes u [(''Policy'', json_dumps (sqs_policy cfg a))]) t2)
         (\<lambda>_ s3. (Inr (), py_print Policy_set s3)))
      (and_then (invoke prov (SqsSetQueueAttributes u [(''Policy'', json_dumps (sqs_policy cfg a))])
                   (py_print Setting_policy s2'))
         (\<lambda>_ s3. (Inr (), py_print Policy_set s3)))"
    by (intro alike_and_then alike_invoke) simp_all
  then show ?thesis
    by (simp add: attach_sqs_policy_def attach_sqs_policy_threaded_def Let_def q c
        unpack_pair_def)
qed

lemma main_threaded_after_bucket:
  "main_threaded cfg prov s =
     and_then (create_sqs_queue cfg prov (snd (create_s3_bucket cfg prov s)))
       (\<lambda>created s2.
     and_then (unpack_pair created, s2)
       (\<lambda>(queue_url, queue_arn) s2.
     and_then (attach_sqs_policy_threaded cfg prov queue_url queue_arn s2)
       (\<lambda>_ s3.
     and_then (configure_s3_notifications cfg prov queue_arn s3)
       (\<lambda>_ s4.
     and_then (create_iam_user cfg prov queue_arn s4)
       (\<lambda>_ s5.
     (Inr (), py_print Setup_complete s5))))))"
  unfolding main_threaded_def using create_s3_bucket_returns [of cfg prov s]
  by (cases "create_s3_bucket cfg prov s") simp

text \<open>
  Claim C8, amended. When the provider's queue creation is idempotent and its attribute
  lookup is read-only, the sequence as written (the Access Binder asks for the queue
  again) and the sequence that passes the first address through end with the same result
  and the same provider state, and request the same attribute updates: the same policy
  for the same queue.
\<close>

theorem redundant_queue_creation_equivalent:
  assumes "queue_creation_idempotent prov" and "lookup_read_only prov"
  shows "fst (main cfg prov s) = fst (main_threaded cfg prov s) \<and>
         world (snd (main cfg prov s)) = world (snd (main_threaded cfg prov s)) \<and>
         set_attributes_requests (calls (snd (main cfg prov s))) =
           set_attributes_requests (calls (snd (main_threaded cfg prov s)))"
proof -
  let ?s1 = "snd (create_s3_bucket cfg prov s)"
  obtain c s2 where q: "create_sqs_queue cfg prov ?s1 = (c, s2)"
    by (cases "create_sqs_queue cfg prov ?s1")
  have "alike (main cfg prov s) (main_threaded cfg prov s)"
  proof (cases c)
    case (Inl e)
    then show ?thesis by (simp add: main_after_bucket main_threaded_after_bucket q)
  next
    case (Inr created)
    show ?thesis
    proof (cases created)
      case None
      with Inr show ?thesis
        by (simp add: main_after_bucket main_threaded_after_bucket q unpack_pair_def)
    next
      case (Some p)
      obtain u a where p: "p = (u, a)" by (cases p)
      from q Inr Some p have first: "create_sqs_queue cfg prov ?s1 = (Inr (Some (u, a)), s2)"
        by simp
      have "alike
        (and_then (attach_sqs_policy cfg prov a s2)
          (\<lambda>_ s3. and_then (configure_s3_notifications cfg prov a s3)
          (\<lambda>_ s4. and_then (create_iam_user cfg prov a s4)
          (\<lambda>_ s5. (Inr (), py_print Setup_complete s5)))))
        (and_then (attach_sqs_policy_threaded cfg prov u a s2)
          (\<lambda>_ s3. and_then (configure_s3_notifications cfg prov a s3)
          (\<lambda>_ s4. and_then (create_iam_user cfg prov a s4)
          (\<lambda>_ s5. (Inr (), py_print Setup_complete s5)))))"
        by (intro alike_and_then alike_attach_sqs_policy [OF assms first]
            alike_configure_s3_notifications alike_create_iam_user) simp_all
      then show ?thesis
        by (simp add: main_after_bucket main_threaded_after_bucket first unpack_pair_def)
    qed
  qed
  then show ?thesis by (simp add: alike_def agree_def)
qed

theorem redundant_queue_creation_equivalent_witness:
  "queue_creation_idempotent accepting \<and> lookup_read_only accepting \<and>
   fst (main default_config accepting (start ())) = Inr () \<and>
   fst (main_threaded default_config accepting (start ())) = Inr () \<and>
   set_attributes_requests (calls (snd (main default_config accepting (start ())))) =
     set_attributes_requests (calls (snd (main_threaded default_config accepting (start ()))))"
proof -
  have i: "queue_creation_idempotent accepting"
    by (simp add: queue_creation_idempotent_def accepting_def)
  have r: "lookup_read_only accepting"
    by (simp add: lookup_read_only_def accepting_def)
  have m: "fst (main default_config accepting (start ())) = Inr ()"
    by (simp add: run_defs accepting_def del: json_dumps.simps)
  from redundant_queue_creation_equivalent [OF i r, of default_config "start ()"] i r m
  show ?thesis by simp
qed

text \<open>
  Claim C8 assumes only that queue creation is idempotent. That is not enough: the Access
  Binder's second request also repeats the attribute lookup. With a provider whose queue
  creation always returns the same address and changes nothing, but which answers only
  the first lookup, the sequence as written ends in a type error without setting any
  policy, while the sequence that passes the address through sets the policy and
  completes.
\<close>

theorem redundant_queue_creation_counterexample:
  "queue_creation_idempotent one_lookup \<and>
   fst (main default_config one_lookup (start 0)) = Inl TypeError \<and>
   set_attributes_requests (calls (snd (main default_config one_lookup (start 0)))) = [] \<and>
   fst (main_threaded default_config one_lookup (start 0)) = Inr () \<and>
   set_attributes_requests (calls (snd (main_threaded default_config one_lookup (start 0)))) =
     [(JStr ''https://sqs.example/audio-transcriber-ingress-queue'',
       [(''Policy'',
         json_dumps
           (sqs_policy default_config
              (JStr ''arn:aws:sqs:us-east-1:123456789012:audio-transcriber-ingress-queue'')))])]"
proof -
  have "queue_creation_idempotent one_lookup"
    by (simp add: queue_creation_idempotent_def one_lookup_def)
  moreover have "fst (main default_config one_lookup (start 0)) = Inl TypeError"
    by (simp add: run_defs one_lookup_def del: json_dumps.simps)
  moreover have
    "set_attributes_requests (calls (snd (main default_config one_lookup (start 0)))) = []"
    by (simp add: run_defs one_lookup_def del: json_dumps.simps)
  moreover have "fst (main_threaded default_config one_lookup (start 0)) = Inr ()"
    by (simp add: run_defs main_threaded_def attach_sqs_policy_threaded_def one_lookup_def
        del: json_dumps.simps)
  moreover have
    "set_attributes_requests (calls (snd (main_threaded default_config one_lookup (start 0)))) =
     [(JStr ''https://sqs.example/audio-transcriber-ingress-queue'',
       [(''Policy'',
         json_dumps
           (sqs_policy default_config
              (JStr ''arn:aws:sqs:us-east-1:123456789012:audio-transcriber-ingress-queue'')))])]"
    by (simp add: run_defs main_threaded_def attach_sqs_policy_threaded_def one_lookup_def
        del: json_dumps.simps)
  ultimately show ?thesis by simp
qed

end
